theory Spec2Isabelle
  imports Complex_Main
begin

section \<open>JavaScript numbers\<close>

text \<open>
  The comparison engine of GymParrot computes on JavaScript numbers. The code tests for
  \<open>NaN\<close> explicitly and divides where the divisor can be zero, so the model keeps the
  three special values of a double apart from the finite ones. A finite value is a
  real; the sign of zero is not modelled. The operations \<open>jadd\<close>, \<open>jmul\<close>, \<open>jdiv\<close>
  below are exact, and a decimal literal of the source is read as the rational it
  denotes. Two functions give results that depend on how a double operation rounds: the
  means of \<open>analyzeMovementPhases\<close> and the source index of
  \<open>normalizeSequenceLength\<close>. They use the rounding operations \<open>fl_add\<close>, \<open>fl_mul\<close>,
  \<open>fl_div\<close> of the end of this section.
\<close>

datatype jsnum = Fin real | PInf | NInf | NaN

fun jneg :: "jsnum \<Rightarrow> jsnum" where
  "jneg (Fin a) = Fin (- a)"
| "jneg PInf = NInf"
| "jneg NInf = PInf"
| "jneg NaN = NaN"

fun jadd :: "jsnum \<Rightarrow> jsnum \<Rightarrow> jsnum" where
  "jadd NaN b = NaN"
| "jadd a NaN = NaN"
| "jadd (Fin a) (Fin b) = Fin (a + b)"
| "jadd PInf NInf = NaN"
| "jadd NInf PInf = NaN"
| "jadd PInf b = PInf"
| "jadd a PInf = PInf"
| "jadd NInf b = NInf"
| "jadd a NInf = NInf"

definition jsub :: "jsnum \<Rightarrow> jsnum \<Rightarrow> jsnum" where
  "jsub a b = jadd a (jneg b)"

fun jmul :: "jsnum \<Rightarrow> jsnum \<Rightarrow> jsnum" where
  "jmul NaN b = NaN"
| "jmul a NaN = NaN"
| "jmul (Fin a) (Fin b) = Fin (a * b)"
| "jmul PInf (Fin b) = (if b = 0 then NaN else if 0 < b then PInf else NInf)"
| "jmul NInf (Fin b) = (if b = 0 then NaN else if 0 < b then NInf else PInf)"
| "jmul (Fin a) PInf = (if a = 0 then NaN else if 0 < a then PInf else NInf)"
| "jmul (Fin a) NInf = (if a = 0 then NaN else if 0 < a then NInf else PInf)"
| "jmul PInf PInf = PInf"
| "jmul PInf NInf = NInf"
| "jmul NInf PInf = NInf"
| "jmul NInf NInf = PInf"

text \<open>
  Division by a zero divisor: \<open>0 / 0\<close> is \<open>NaN\<close>, and a non-zero dividend gives an
  infinity (the divisor is taken as \<open>+0\<close>).
\<close>

fun jdiv :: "jsnum \<Rightarrow> jsnum \<Rightarrow> jsnum" where
  "jdiv NaN b = NaN"
| "jdiv a NaN = NaN"
| "jdiv (Fin a) (Fin b) =
     (if b \<noteq> 0 then Fin (a / b)
      else if a = 0 then NaN else if 0 < a then PInf else NInf)"
| "jdiv (Fin a) PInf = Fin 0"
| "jdiv (Fin a) NInf = Fin 0"
| "jdiv PInf (Fin b) = (if 0 \<le> b then PInf else NInf)"
| "jdiv NInf (Fin b) = (if 0 \<le> b then NInf else PInf)"
| "jdiv a b = NaN"

fun jsqrt :: "jsnum \<Rightarrow> jsnum" where
  "jsqrt (Fin a) = (if a < 0 then NaN else Fin (sqrt a))"
| "jsqrt PInf = PInf"
| "jsqrt NInf = NaN"
| "jsqrt NaN = NaN"

fun jexp :: "jsnum \<Rightarrow> jsnum" where
  "jexp (Fin a) = Fin (exp a)"
| "jexp PInf = PInf"
| "jexp NInf = Fin 0"
| "jexp NaN = NaN"

text \<open>Comparisons: every comparison with \<open>NaN\<close> is false.\<close>

fun jlt :: "jsnum \<Rightarrow> jsnum \<Rightarrow> bool" where
  "jlt NaN b = False"
| "jlt a NaN = False"
| "jlt (Fin a) (Fin b) = (a < b)"
| "jlt a NInf = False"
| "jlt PInf b = False"
| "jlt NInf b = True"
| "jlt a PInf = True"

fun jle :: "jsnum \<Rightarrow> jsnum \<Rightarrow> bool" where
  "jle NaN b = False"
| "jle a NaN = False"
| "jle (Fin a) (Fin b) = (a \<le> b)"
| "jle NInf b = True"
| "jle a PInf = True"
| "jle a b = False"

definition jgt :: "jsnum \<Rightarrow> jsnum \<Rightarrow> bool" where
  "jgt a b = jlt b a"

definition jge :: "jsnum \<Rightarrow> jsnum \<Rightarrow> bool" where
  "jge a b = jle b a"

text \<open>\<open>isNaN\<close> on a value of type number.\<close>

fun isNaN :: "jsnum \<Rightarrow> bool" where
  "isNaN NaN = True"
| "isNaN a = False"

text \<open>\<open>Math.max\<close> and \<open>Math.min\<close> of two numbers: \<open>NaN\<close> if either is.\<close>

definition Math_max :: "jsnum \<Rightarrow> jsnum \<Rightarrow> jsnum" where
  "Math_max a b = (if isNaN a \<or> isNaN b then NaN else if jlt a b then b else a)"

definition Math_min :: "jsnum \<Rightarrow> jsnum \<Rightarrow> jsnum" where
  "Math_min a b = (if isNaN a \<or> isNaN b then NaN else if jlt b a then b else a)"

text \<open>Strict equality \<open>a === b\<close> of two numbers: \<open>NaN\<close> equals nothing.\<close>

definition strict_eq :: "jsnum \<Rightarrow> jsnum \<Rightarrow> bool" where
  "strict_eq a b = (\<not> isNaN a \<and> a = b)"

text \<open>
  A property that may be missing is a \<open>jsnum option\<close>: \<open>None\<close> is \<open>undefined\<close>.
  \<open>v || d\<close> yields \<open>d\<close> when \<open>v\<close> is falsy: \<open>undefined\<close>, \<open>0\<close> or \<open>NaN\<close>.
  In arithmetic and comparisons \<open>undefined\<close> converts to \<open>NaN\<close>.
\<close>

fun truthy :: "jsnum \<Rightarrow> bool" where
  "truthy NaN = False"
| "truthy (Fin a) = (a \<noteq> 0)"
| "truthy a = True"

fun or_default :: "jsnum option \<Rightarrow> jsnum \<Rightarrow> jsnum" where
  "or_default None d = d"
| "or_default (Some v) d = (if truthy v then v else d)"

fun ToNumber :: "jsnum option \<Rightarrow> jsnum" where
  "ToNumber None = NaN"
| "ToNumber (Some v) = v"

text \<open>
  A double operation returns the exact result rounded to a double, or an infinity when
  the exact result is too large. The rounding is the parameter \<open>rnd\<close>, from the exact
  finite result to the value returned; the decimal literal \<open>0.6\<close> is then \<open>rnd (6/10)\<close>.
  With \<open>rnd = Fin\<close> the operations are the exact ones. \<open>Math.floor\<close> is exact.
\<close>

definition fl_add :: "(real \<Rightarrow> jsnum) \<Rightarrow> jsnum \<Rightarrow> jsnum \<Rightarrow> jsnum" where
  "fl_add rnd a b = (case jadd a b of Fin r \<Rightarrow> rnd r | v \<Rightarrow> v)"

definition fl_mul :: "(real \<Rightarrow> jsnum) \<Rightarrow> jsnum \<Rightarrow> jsnum \<Rightarrow> jsnum" where
  "fl_mul rnd a b = (case jmul a b of Fin r \<Rightarrow> rnd r | v \<Rightarrow> v)"

definition fl_div :: "(real \<Rightarrow> jsnum) \<Rightarrow> jsnum \<Rightarrow> jsnum \<Rightarrow> jsnum" where
  "fl_div rnd a b = (case jdiv a b of Fin r \<Rightarrow> rnd r | v \<Rightarrow> v)"

fun Math_floor :: "jsnum \<Rightarrow> jsnum" where
  "Math_floor (Fin r) = Fin (of_int \<lfloor>r\<rfloor>)"
| "Math_floor v = v"

text \<open>
  \<open>xs[k]\<close> for a number \<open>k\<close>: the element when \<open>k\<close> is an integer index inside the
  array, \<open>undefined\<close> otherwise. The elements are optional themselves, so a \<open>null\<close>
  element and a read outside the array both give \<open>None\<close>.
\<close>

fun element_at :: "'a option list \<Rightarrow> jsnum \<Rightarrow> 'a option" where
  "element_at xs (Fin r) =
     (if 0 \<le> r \<and> of_int \<lfloor>r\<rfloor> = r \<and> nat \<lfloor>r\<rfloor> < length xs then xs ! nat \<lfloor>r\<rfloor> else None)"
| "element_at xs v = None"

section \<open>Data model\<close>

text \<open>
  \<open>PoseLandmark\<close> (types): \<open>{x: number, y: number, z: number, visibility?: number}\<close>.
  The scorer checks at run time that the three coordinates are there, so each is
  optional in the model; the fields are named \<open>lm_x\<close>, \<open>lm_y\<close>, \<open>lm_z\<close>.
  An array element may itself be \<open>null\<close> or \<open>undefined\<close>: \<open>None\<close>.
\<close>

record PoseLandmark =
  lm_x :: "jsnum option"
  lm_y :: "jsnum option"
  lm_z :: "jsnum option"
  visibility :: "jsnum option"

type_synonym pose = "PoseLandmark option list"

section \<open>ComparisonService.calculateSimilarityScore\<close>

definition keyLandmarkIndices :: "nat list" where
  "keyLandmarkIndices = [0, 11, 12, 13, 14, 15, 16, 23, 24, 25, 26, 27, 28]"

text \<open>\<open>typeof v !== 'number'\<close> for a coordinate that is a number or missing.\<close>

fun not_a_number_type :: "jsnum option \<Rightarrow> bool" where
  "not_a_number_type None = True"
| "not_a_number_type (Some v) = False"

text \<open>
  The first guard of the loop body: a missing landmark, a coordinate that is not of type
  number, or a \<open>NaN\<close> coordinate.
\<close>

definition invalid_landmark_data :: "PoseLandmark option \<Rightarrow> PoseLandmark option \<Rightarrow> bool" where
  "invalid_landmark_data landmark1 landmark2 =
     (case (landmark1, landmark2) of
        (Some l1, Some l2) \<Rightarrow>
          not_a_number_type (lm_x l1) \<or> not_a_number_type (lm_y l1) \<or> not_a_number_type (lm_z l1) \<or>
          not_a_number_type (lm_x l2) \<or> not_a_number_type (lm_y l2) \<or> not_a_number_type (lm_z l2) \<or>
          isNaN (ToNumber (lm_x l1)) \<or> isNaN (ToNumber (lm_y l1)) \<or> isNaN (ToNumber (lm_z l1)) \<or>
          isNaN (ToNumber (lm_x l2)) \<or> isNaN (ToNumber (lm_y l2)) \<or> isNaN (ToNumber (lm_z l2))
      | _ \<Rightarrow> True)"

text \<open>The second guard: \<open>(landmark.visibility || 1) < 0.3\<close> for either landmark.\<close>

definition very_low_visibility :: "PoseLandmark \<Rightarrow> PoseLandmark \<Rightarrow> bool" where
  "very_low_visibility l1 l2 =
     (jlt (or_default (visibility l1) (Fin 1)) (Fin (3/10)) \<or>
      jlt (or_default (visibility l2) (Fin 1)) (Fin (3/10)))"

definition euclidean_distance :: "PoseLandmark \<Rightarrow> PoseLandmark \<Rightarrow> jsnum" where
  "euclidean_distance l1 l2 =
     (let dx = jsub (ToNumber (lm_x l1)) (ToNumber (lm_x l2));
          dy = jsub (ToNumber (lm_y l1)) (ToNumber (lm_y l2));
          dz = jsub (ToNumber (lm_z l1)) (ToNumber (lm_z l2))
      in jsqrt (jadd (jadd (jmul dx dx) (jmul dy dy)) (jmul dz dz)))"

text \<open>
  One pass through the loop body at index \<open>i\<close>. \<open>None\<close> is \<open>continue\<close>: the pair is
  skipped. \<open>Some (d, w)\<close> is what the pass adds to \<open>totalDistance\<close> and to
  \<open>validComparisons\<close>.
\<close>

definition pair_contribution ::
  "nat \<Rightarrow> PoseLandmark option \<Rightarrow> PoseLandmark option \<Rightarrow> (jsnum \<times> jsnum) option" where
  "pair_contribution i landmark1 landmark2 =
     (if invalid_landmark_data landmark1 landmark2 then None
      else case (landmark1, landmark2) of
        (Some l1, Some l2) \<Rightarrow>
          if very_low_visibility l1 l2 then None
          else let distance = euclidean_distance l1 l2 in
            if isNaN distance then None
            else let weight = (if i \<in> set keyLandmarkIndices then Fin 2 else Fin 1)
                 in Some (jmul distance weight, weight)
      | _ \<Rightarrow> None)"

text \<open>
  The loop \<open>for (i = 0; i < minLength; i++)\<close> over \<open>pose1[i]\<close>, \<open>pose2[i]\<close>: it ends
  with the shorter list. The accumulator is \<open>(totalDistance, validComparisons)\<close>.
\<close>

fun similarity_loop :: "nat \<Rightarrow> pose \<Rightarrow> pose \<Rightarrow> jsnum \<times> jsnum \<Rightarrow> jsnum \<times> jsnum" where
  "similarity_loop i (landmark1 # pose1) (landmark2 # pose2) (totalDistance, validComparisons) =
     similarity_loop (Suc i) pose1 pose2
       (case pair_contribution i landmark1 landmark2 of
          None \<Rightarrow> (totalDistance, validComparisons)
        | Some (d, w) \<Rightarrow> (jadd totalDistance d, jadd validComparisons w))"
| "similarity_loop i pose1 pose2 acc = acc"

text \<open>
  The same loop with the index written out: what the pass at index \<open>i\<close> does to the
  accumulator, reading \<open>pose1[i]\<close> and \<open>pose2[i]\<close>. The lemma
  \<open>similarity_loop_by_index\<close> below shows that \<open>similarity_loop\<close> is this loop over
  \<open>0 .. minLength - 1\<close>.
\<close>

definition index_step :: "nat \<Rightarrow> pose \<Rightarrow> pose \<Rightarrow> jsnum \<times> jsnum \<Rightarrow> nat \<Rightarrow> jsnum \<times> jsnum" where
  "index_step k A B acc i =
     (case pair_contribution (k + i) (A ! i) (B ! i) of
        None \<Rightarrow> acc
      | Some (d, w) \<Rightarrow> (jadd (fst acc) d, jadd (snd acc) w))"

text \<open>A pose argument may be \<open>null\<close> or \<open>undefined\<close>: \<open>None\<close>.\<close>

definition calculateSimilarityScore :: "pose option \<Rightarrow> pose option \<Rightarrow> jsnum" where
  "calculateSimilarityScore pose1 pose2 =
     (case (pose1, pose2) of
        (Some p1, Some p2) \<Rightarrow>
          if p1 = [] \<or> p2 = [] then Fin 0
          else
            (case similarity_loop 0 p1 p2 (Fin 0, Fin 0) of
               (totalDistance, validComparisons) \<Rightarrow>
                 if strict_eq validComparisons (Fin 0) then Fin 0
                 else
                   let averageDistance = jdiv totalDistance validComparisons;
                       maxExpectedDistance = Fin (1/2);
                       similarity = Math_max (Fin 0)
                          (jsub (Fin 1) (jdiv averageDistance maxExpectedDistance))
                   in Math_min (Fin 1) similarity)
      | _ \<Rightarrow> Fin 0)"

section \<open>ComparisonService: sequences and the temporal score\<close>

text \<open>
  \<open>TimestampedLandmarks\<close> (types): \<open>{timestamp: number, landmarks: PoseLandmark[]}\<close>.
  A frame of a sequence may be \<open>null\<close> or \<open>undefined\<close>, and so may its landmark list:
  reading a property of such a frame, or spreading such a list, throws a TypeError,
  which the \<open>catch\<close> of the calling method turns into a result.
\<close>

datatype js_error = TypeError

record TimestampedLandmarks =
  timestamp :: jsnum
  landmarks :: "pose option"

type_synonym movement_sequence = "TimestampedLandmarks option list"

text \<open>
  \<open>normalizeSequenceLength\<close>: the frame pushed for output index \<open>i\<close>. The quotient
  \<open>sequence.length / targetLength\<close> and the product \<open>i * ratio\<close> are double operations,
  so they round. \<open>sequence[clampedIndex]\<close> outside the array is \<open>undefined\<close> (for an
  empty sequence the index is \<open>-1\<close>), and reading its \<open>timestamp\<close> throws.
\<close>

definition resampled_frame ::
  "(real \<Rightarrow> jsnum) \<Rightarrow> movement_sequence \<Rightarrow> nat \<Rightarrow> nat \<Rightarrow>
     js_error + TimestampedLandmarks option" where
  "resampled_frame rnd sequence targetLength i =
     (let ratio = fl_div rnd (Fin (real (length sequence))) (Fin (real targetLength));
          sourceIndex = Math_floor (fl_mul rnd (Fin (real i)) ratio);
          clampedIndex = Math_min sourceIndex (jsub (Fin (real (length sequence))) (Fin 1))
      in case element_at sequence clampedIndex of
           None \<Rightarrow> Inl TypeError
         | Some frame \<Rightarrow>
             (case landmarks frame of
                None \<Rightarrow> Inl TypeError
              | Some ls \<Rightarrow> Inr (Some \<lparr>timestamp = timestamp frame, landmarks = Some ls\<rparr>)))"

fun collect_frames ::
  "(nat \<Rightarrow> js_error + TimestampedLandmarks option) \<Rightarrow> nat list \<Rightarrow> js_error + movement_sequence" where
  "collect_frames f [] = Inr []"
| "collect_frames f (i # rest) =
     (case f i of
        Inl e \<Rightarrow> Inl e
      | Inr frame \<Rightarrow>
          (case collect_frames f rest of Inl e \<Rightarrow> Inl e | Inr frames \<Rightarrow> Inr (frame # frames)))"

definition normalizeSequenceLength ::
  "(real \<Rightarrow> jsnum) \<Rightarrow> movement_sequence \<Rightarrow> nat \<Rightarrow> js_error + movement_sequence" where
  "normalizeSequenceLength rnd sequence targetLength =
     (if length sequence = targetLength then Inr sequence
      else collect_frames (resampled_frame rnd sequence targetLength) [0..<targetLength])"

text \<open>The temporal weight of frame \<open>i\<close> of \<open>len\<close> frames (\<open>length\<close> in the source).\<close>

definition temporal_weight :: "nat \<Rightarrow> nat \<Rightarrow> jsnum" where
  "temporal_weight len i =
     (let normalizedPosition =
            jsub (jmul (jdiv (Fin (real i)) (jsub (Fin (real len)) (Fin 1))) (Fin 2)) (Fin 1)
      in jexp (jmul (jneg (jmul normalizedPosition normalizedPosition)) (Fin 2)))"

text \<open>The second loop: \<open>(weightedSum, totalWeight)\<close> over scores and weights.\<close>

fun weighted_sums :: "jsnum list \<Rightarrow> jsnum list \<Rightarrow> jsnum \<times> jsnum \<Rightarrow> jsnum \<times> jsnum" where
  "weighted_sums (s # frameScores) (w # weights) (weightedSum, totalWeight) =
     weighted_sums frameScores weights (jadd weightedSum (jmul s w), jadd totalWeight w)"
| "weighted_sums frameScores weights acc = acc"

definition calculateTemporalScore :: "jsnum list \<Rightarrow> jsnum" where
  "calculateTemporalScore frameScores =
     (if length frameScores = 0 then Fin 0
      else
        let weights = map (temporal_weight (length frameScores)) [0..<length frameScores]
        in case weighted_sums frameScores weights (Fin 0, Fin 0) of
             (weightedSum, totalWeight) \<Rightarrow>
               if jgt totalWeight (Fin 0) then jdiv weightedSum totalWeight else Fin 0)"

text \<open>
  \<open>xs.reduce((a, b) => a + b, 0)\<close>, each addition a double addition, and
  \<open>xs.slice(from, to)\<close>.
\<close>

definition reduce_sum :: "(real \<Rightarrow> jsnum) \<Rightarrow> jsnum list \<Rightarrow> jsnum" where
  "reduce_sum rnd xs = foldl (fl_add rnd) (Fin 0) xs"

definition slice :: "'a list \<Rightarrow> nat \<Rightarrow> nat \<Rightarrow> 'a list" where
  "slice xs from to = take (to - from) (drop from xs)"

text \<open>
  \<open>Math.floor(length / 3)\<close> and \<open>Math.floor(2 * length / 3)\<close> are \<open>len div 3\<close> and
  \<open>2 * len div 3\<close>: a quotient of array lengths by 3 never rounds up to the next integer.
  The sums and the three quotients round.
\<close>

definition analyzeMovementPhases :: "(real \<Rightarrow> jsnum) \<Rightarrow> jsnum list \<Rightarrow> string list" where
  "analyzeMovementPhases rnd frameScores =
     (let len = length frameScores in
      if len < 3 then []
      else
        let beginningScore =
              fl_div rnd (reduce_sum rnd (slice frameScores 0 (len div 3)))
                (Fin (real (len div 3)));
            middleScore =
              fl_div rnd (reduce_sum rnd (slice frameScores (len div 3) (2 * len div 3)))
                (Fin (real (len div 3)));
            endScore =
              fl_div rnd (reduce_sum rnd (drop (2 * len div 3) frameScores))
                (jsub (Fin (real len)) (Fin (real (2 * len div 3))))
        in (if jlt beginningScore (rnd (6/10)) then [''Work on your starting position''] else []) @
           (if jlt middleScore (rnd (6/10))
            then [''Focus on the middle phase of the movement''] else []) @
           (if jlt endScore (rnd (6/10)) then [''Pay attention to your ending position''] else []))"

section \<open>Difficulty, results and feedback\<close>

datatype DifficultyLevel = Soft | Medium | Hard

fun DIFFICULTY_THRESHOLDS :: "DifficultyLevel \<Rightarrow> jsnum" where
  "DIFFICULTY_THRESHOLDS Soft = Fin (7/10)"
| "DIFFICULTY_THRESHOLDS Medium = Fin (8/10)"
| "DIFFICULTY_THRESHOLDS Hard = Fin (9/10)"

text \<open>An argument that should be an array: \<open>Array.isArray\<close> tells the two apart.\<close>

datatype 'a js_arg = NotArray | Array "'a list"

text \<open>
  The four body parts, in the order of \<open>Object.entries\<close>. Both
  \<open>analyzeBodyPartDifferences\<close> and \<open>findMajorDifferences\<close> use this table.
\<close>

definition bodyParts :: "(string \<times> nat list) list" where
  "bodyParts =
     [(''head'', [0, 1, 2, 3, 4, 5, 6, 7, 8, 9, 10]),
      (''arms'', [11, 12, 13, 14, 15, 16, 17, 18, 19, 20, 21, 22]),
      (''torso'', [11, 12, 23, 24]),
      (''legs'', [23, 24, 25, 26, 27, 28, 29, 30, 31, 32])]"

text \<open>
  The inner loop over the indices of one body part; the accumulator is
  \<open>(partDistance, validComparisons)\<close>. \<open>landmark1.visibility\<close> throws when the
  landmark is \<open>null\<close>; \<open>landmark2.visibility\<close> is read only when the first
  conjunct of the \<open>&&\<close> holds.
\<close>

fun part_loop :: "nat list \<Rightarrow> pose \<Rightarrow> pose \<Rightarrow> jsnum \<times> nat \<Rightarrow> js_error + jsnum \<times> nat" where
  "part_loop [] recorded current acc = Inr acc"
| "part_loop (index # indices) recorded current (partDistance, validComparisons) =
     (if index < min (length recorded) (length current) then
        (case recorded ! index of
           None \<Rightarrow> Inl TypeError
         | Some landmark1 \<Rightarrow>
             if jge (or_default (visibility landmark1) (Fin 1)) (Fin (1/2)) then
               (case current ! index of
                  None \<Rightarrow> Inl TypeError
                | Some landmark2 \<Rightarrow>
                    if jge (or_default (visibility landmark2) (Fin 1)) (Fin (1/2)) then
                      part_loop indices recorded current
                        (jadd partDistance (euclidean_distance landmark1 landmark2),
                         Suc validComparisons)
                    else part_loop indices recorded current (partDistance, validComparisons))
             else part_loop indices recorded current (partDistance, validComparisons))
      else part_loop indices recorded current (partDistance, validComparisons))"

text \<open>
  Whether a body part differs by more than \<open>0.15\<close> on average: the test both callers
  make after the inner loop.
\<close>

definition part_differs :: "nat list \<Rightarrow> pose \<Rightarrow> pose \<Rightarrow> js_error + bool" where
  "part_differs indices recorded current =
     (case part_loop indices recorded current (Fin 0, 0) of
        Inl e \<Rightarrow> Inl e
      | Inr (partDistance, validComparisons) \<Rightarrow>
          Inr (validComparisons > 0 \<and>
               jgt (jdiv partDistance (Fin (real validComparisons))) (Fin (15/100))))"

definition toUpperCase_char :: "char \<Rightarrow> char" where
  "toUpperCase_char c =
     (case map_of (zip ''abcdefghijklmnopqrstuvwxyz'' ''ABCDEFGHIJKLMNOPQRSTUVWXYZ'') c of
        Some u \<Rightarrow> u | None \<Rightarrow> c)"

text \<open>\<open>partName.charAt(0).toUpperCase() + partName.slice(1)\<close>\<close>

definition capitalize :: "string \<Rightarrow> string" where
  "capitalize partName = map toUpperCase_char (take 1 partName) @ drop 1 partName"

fun analyze_parts :: "(string \<times> nat list) list \<Rightarrow> pose \<Rightarrow> pose \<Rightarrow> js_error + string list" where
  "analyze_parts [] recorded current = Inr []"
| "analyze_parts ((partName, indices) # parts) recorded current =
     (case part_differs indices recorded current of
        Inl e \<Rightarrow> Inl e
      | Inr differs \<Rightarrow>
          (case analyze_parts parts recorded current of
             Inl e \<Rightarrow> Inl e
           | Inr rest \<Rightarrow>
               Inr ((if differs then [capitalize partName @ '' positioning needs adjustment'']
                     else []) @ rest)))"

definition analyzeBodyPartDifferences :: "pose \<Rightarrow> pose \<Rightarrow> js_error + string list" where
  "analyzeBodyPartDifferences recorded current = analyze_parts bodyParts recorded current"

text \<open>
  The headline of the feedback prints numbers with \<open>toFixed(1)\<close>, a built-in of the
  language: the model takes it as the parameter \<open>toFixed1\<close>.
\<close>

definition generatePoseFeedback ::
  "(jsnum \<Rightarrow> string) \<Rightarrow> pose \<Rightarrow> pose \<Rightarrow> jsnum \<Rightarrow> jsnum \<Rightarrow> js_error + string list" where
  "generatePoseFeedback toFixed1 recorded current score threshold =
     (let headline =
            (if jge score threshold
             then ''Great job! Pose similarity: '' @ toFixed1 (jmul score (Fin 100)) @ ''%''
             else ''Pose similarity: '' @ toFixed1 (jmul score (Fin 100)) @ ''% (target: '' @
                  toFixed1 (jmul threshold (Fin 100)) @ ''%)'')
      in case analyzeBodyPartDifferences recorded current of
           Inl e \<Rightarrow> Inl e
         | Inr bodyPartFeedback \<Rightarrow> Inr (headline # bodyPartFeedback))"

record major_differences =
  arms :: bool
  legs :: bool
  torso :: bool
  head :: bool

definition findMajorDifferences :: "pose \<Rightarrow> pose \<Rightarrow> js_error + major_differences" where
  "findMajorDifferences recorded current =
     (case part_differs (snd (bodyParts ! 0)) recorded current of
        Inl e \<Rightarrow> Inl e
      | Inr h \<Rightarrow>
     (case part_differs (snd (bodyParts ! 1)) recorded current of
        Inl e \<Rightarrow> Inl e
      | Inr a \<Rightarrow>
     (case part_differs (snd (bodyParts ! 2)) recorded current of
        Inl e \<Rightarrow> Inl e
      | Inr t \<Rightarrow>
     (case part_differs (snd (bodyParts ! 3)) recorded current of
        Inl e \<Rightarrow> Inl e
      | Inr l \<Rightarrow> Inr \<lparr>arms = a, legs = l, torso = t, head = h\<rparr>))))"

definition generatePoseSuggestions ::
  "pose \<Rightarrow> pose \<Rightarrow> DifficultyLevel \<Rightarrow> js_error + string list" where
  "generatePoseSuggestions recorded current difficulty =
     (case findMajorDifferences recorded current of
        Inl e \<Rightarrow> Inl e
      | Inr differences \<Rightarrow>
          let suggestions =
                (if arms differences then [''Adjust your arm position to match the target pose''] else []) @
                (if legs differences then [''Check your leg positioning and stance''] else []) @
                (if torso differences then [''Align your torso and spine position''] else []) @
                (if head differences then [''Adjust your head position and gaze direction''] else []) @
                (if difficulty = Hard
                 then [''Focus on precise positioning - small adjustments matter'']
                 else if difficulty = Soft
                 then [''Get the general pose shape right - precision will come with practice'']
                 else [])
          in Inr (if length suggestions > 0 then suggestions
                  else [''Keep practicing to improve your pose accuracy'']))"

record ComparisonResult =
  isMatch :: bool
  score :: jsnum
  feedback :: "string list"
  suggestions :: "string list"

definition comparePoses ::
  "(jsnum \<Rightarrow> string) \<Rightarrow> PoseLandmark option js_arg \<Rightarrow> PoseLandmark option js_arg \<Rightarrow>
     DifficultyLevel \<Rightarrow> ComparisonResult" where
  "comparePoses toFixed1 recorded current difficulty =
     (case (recorded, current) of
        (Array r, Array c) \<Rightarrow>
          if length r = 0 \<or> length c = 0 then
            \<lparr>isMatch = False, score = Fin 0,
             feedback = [''Missing pose landmarks''],
             suggestions = [''Ensure pose is detected properly'']\<rparr>
          else
            let score = calculateSimilarityScore (Some r) (Some c);
                threshold = DIFFICULTY_THRESHOLDS difficulty;
                isMatch = jge score threshold;
                caught = \<lparr>isMatch = False, score = Fin 0,
                   feedback = [''Error comparing poses''],
                   suggestions = [''Try again with better lighting and pose visibility'']\<rparr>
            in (case generatePoseFeedback toFixed1 r c score threshold of
                  Inl e \<Rightarrow> caught
                | Inr fb \<Rightarrow>
                    (case generatePoseSuggestions r c difficulty of
                       Inl e \<Rightarrow> caught
                     | Inr sg \<Rightarrow>
                         \<lparr>isMatch = isMatch, score = score,
                          feedback = fb, suggestions = sg\<rparr>))
      | _ \<Rightarrow>
          \<lparr>isMatch = False, score = Fin 0,
           feedback = [''Invalid pose data provided''],
           suggestions = [''Ensure both poses have valid landmark data'']\<rparr>)"

section \<open>ComparisonService.compareMovementSequence\<close>

text \<open>
  The frame-by-frame loop over the two resampled sequences: it ends with the shorter
  one; \<open>normalizedRecorded[i].landmarks\<close> throws on a \<open>null\<close> frame.
\<close>

fun frame_scores :: "movement_sequence \<Rightarrow> movement_sequence \<Rightarrow> js_error + jsnum list" where
  "frame_scores (r # normalizedRecorded) (c # normalizedCurrent) =
     (case r of
        None \<Rightarrow> Inl TypeError
      | Some frame1 \<Rightarrow>
          (case c of
             None \<Rightarrow> Inl TypeError
           | Some frame2 \<Rightarrow>
               (case frame_scores normalizedRecorded normalizedCurrent of
                  Inl e \<Rightarrow> Inl e
                | Inr frameScores \<Rightarrow>
                    Inr (calculateSimilarityScore (landmarks frame1) (landmarks frame2)
                         # frameScores))))"
| "frame_scores normalizedRecorded normalizedCurrent = Inr []"

definition generateMovementFeedback ::
  "(real \<Rightarrow> jsnum) \<Rightarrow> (jsnum \<Rightarrow> string) \<Rightarrow> jsnum list \<Rightarrow> jsnum \<Rightarrow> jsnum \<Rightarrow> string list" where
  "generateMovementFeedback rnd toFixed1 frameScores overallScore threshold =
     (let headline =
            (if jge overallScore threshold
             then ''Excellent movement! Overall similarity: '' @
                  toFixed1 (jmul overallScore (Fin 100)) @ ''%''
             else ''Movement similarity: '' @ toFixed1 (jmul overallScore (Fin 100)) @
                  ''% (target: '' @ toFixed1 (jmul threshold (Fin 100)) @ ''%)'')
      in headline # analyzeMovementPhases rnd frameScores)"

definition generateMovementSuggestions ::
  "movement_sequence \<Rightarrow> movement_sequence \<Rightarrow> DifficultyLevel \<Rightarrow> string list" where
  "generateMovementSuggestions recorded current difficulty =
     (if jlt (Fin (real (length current))) (jmul (Fin (real (length recorded))) (Fin (8/10)))
      then [''Try to complete the full movement sequence'']
      else if jgt (Fin (real (length current))) (jmul (Fin (real (length recorded))) (Fin (12/10)))
      then [''The movement seems too slow - try to match the target pace'']
      else []) @
     [''Focus on smooth, controlled movements'',
      ''Try to maintain consistent timing throughout the sequence''] @
     (if difficulty = Hard then [''Pay attention to precise timing and form details''] else [])"

definition compareMovementSequence ::
  "(real \<Rightarrow> jsnum) \<Rightarrow> (jsnum \<Rightarrow> string) \<Rightarrow> TimestampedLandmarks option js_arg \<Rightarrow>
     TimestampedLandmarks option js_arg \<Rightarrow> DifficultyLevel \<Rightarrow> ComparisonResult" where
  "compareMovementSequence rnd toFixed1 recorded current difficulty =
     (case (recorded, current) of
        (Array r, Array c) \<Rightarrow>
          if length r = 0 \<or> length c = 0 then
            \<lparr>isMatch = False, score = Fin 0,
             feedback = [''Missing movement data''],
             suggestions = [''Complete the full movement sequence'']\<rparr>
          else
            let caught = \<lparr>isMatch = False, score = Fin 0,
                   feedback = [''Error comparing movement sequences''],
                   suggestions = [''Try performing the movement more slowly and clearly'']\<rparr>
            in (case normalizeSequenceLength rnd r (length c) of
                  Inl e \<Rightarrow> caught
                | Inr normalizedRecorded \<Rightarrow>
                    (case normalizeSequenceLength rnd c (length r) of
                       Inl e \<Rightarrow> caught
                     | Inr normalizedCurrent \<Rightarrow>
                         (case frame_scores normalizedRecorded normalizedCurrent of
                            Inl e \<Rightarrow> caught
                          | Inr frameScores \<Rightarrow>
                              let overallScore = calculateTemporalScore frameScores;
                                  threshold = DIFFICULTY_THRESHOLDS difficulty;
                                  isMatch = jge overallScore threshold
                              in \<lparr>isMatch = isMatch, score = overallScore,
                                  feedback = generateMovementFeedback rnd toFixed1 frameScores
                                               overallScore threshold,
                                  suggestions = generateMovementSuggestions r c difficulty\<rparr>)))
      | _ \<Rightarrow>
          \<lparr>isMatch = False, score = Fin 0,
           feedback = [''Invalid movement data provided''],
           suggestions = [''Ensure both movements have valid sequence data'']\<rparr>)"

section \<open>Normalization: MediaPipeService.normalizeLandmark and validation.normalizePoseData\<close>

text \<open>
  Both clamp with \<open>Math.max(0, Math.min(1, v))\<close>; a missing coordinate converts to
  \<open>NaN\<close> inside \<open>Math.min\<close>. \<open>visibility\<close> is clamped unless it is \<open>undefined\<close>.
\<close>

definition normalizeLandmark :: "PoseLandmark \<Rightarrow> PoseLandmark" where
  "normalizeLandmark landmark =
     \<lparr>lm_x = Some (Math_max (Fin 0) (Math_min (Fin 1) (ToNumber (lm_x landmark)))),
      lm_y = Some (Math_max (Fin 0) (Math_min (Fin 1) (ToNumber (lm_y landmark)))),
      lm_z = lm_z landmark,
      visibility =
        (case visibility landmark of
           None \<Rightarrow> None
         | Some v \<Rightarrow> Some (Math_max (Fin 0) (Math_min (Fin 1) v)))\<rparr>"

definition normalizePoseData :: "PoseLandmark list \<Rightarrow> PoseLandmark list" where
  "normalizePoseData landmark_list =
     map (\<lambda>landmark.
       \<lparr>lm_x = Some (Math_max (Fin 0) (Math_min (Fin 1) (ToNumber (lm_x landmark)))),
        lm_y = Some (Math_max (Fin 0) (Math_min (Fin 1) (ToNumber (lm_y landmark)))),
        lm_z = lm_z landmark,
        visibility =
          (case visibility landmark of
             None \<Rightarrow> None
           | Some v \<Rightarrow> Some (Math_max (Fin 0) (Math_min (Fin 1) v)))\<rparr>) landmark_list"

section \<open>MediaPipeService.validatePoseQuality\<close>

text \<open>The decimal digits of a length, as a template literal prints it.\<close>

function string_of_nat :: "nat \<Rightarrow> string" where
  "string_of_nat n =
     (if n < 10 then [''0123456789'' ! n]
      else string_of_nat (n div 10) @ [''0123456789'' ! (n mod 10)])"
  by pat_completeness auto
termination
  by (relation "measure id") auto

declare string_of_nat.simps [simp del]

record pose_quality =
  isValid :: bool
  issues :: "string list"

text \<open>
  The callback of \<open>keyLandmarkIndices.filter\<close>: \<open>landmarks[index]\<close> past the end of
  the array is \<open>undefined\<close>, which \<open>landmark && ...\<close> rejects, as it does a \<open>null\<close>
  element.
\<close>

definition low_visibility_key :: "pose \<Rightarrow> nat \<Rightarrow> bool" where
  "low_visibility_key landmark_list index =
     (if index < length landmark_list then
        (case landmark_list ! index of
           None \<Rightarrow> False
         | Some landmark \<Rightarrow>
             (case visibility landmark of None \<Rightarrow> True | Some v \<Rightarrow> jlt v (Fin (1/2))))
      else False)"

definition out_of_range_coords :: "PoseLandmark \<Rightarrow> bool" where
  "out_of_range_coords landmark =
     (jlt (ToNumber (lm_x landmark)) (Fin 0) \<or> jgt (ToNumber (lm_x landmark)) (Fin 1) \<or>
      jlt (ToNumber (lm_y landmark)) (Fin 0) \<or> jgt (ToNumber (lm_y landmark)) (Fin 1))"

text \<open>\<open>landmarks.filter(...)\<close> reads \<open>landmark.x\<close>: a \<open>null\<close> element throws.\<close>

fun filter_invalid_coords :: "pose \<Rightarrow> js_error + PoseLandmark list" where
  "filter_invalid_coords [] = Inr []"
| "filter_invalid_coords (None # rest) = Inl TypeError"
| "filter_invalid_coords (Some landmark # rest) =
     (case filter_invalid_coords rest of
        Inl e \<Rightarrow> Inl e
      | Inr kept \<Rightarrow> Inr (if out_of_range_coords landmark then landmark # kept else kept))"

definition validatePoseQuality :: "pose \<Rightarrow> js_error + pose_quality" where
  "validatePoseQuality landmark_list =
     (if length landmark_list = 0 then
        Inr \<lparr>isValid = False, issues = [''No landmarks detected'']\<rparr>
      else
        let issues1 =
              (if length landmark_list \<noteq> 33
               then [''Expected 33 landmarks, got '' @ string_of_nat (length landmark_list)]
               else []);
            keyLandmarkIndices = [0, 11, 12, 23, 24];
            lowVisibilityLandmarks = filter (low_visibility_key landmark_list) keyLandmarkIndices;
            issues2 = issues1 @
              (if length lowVisibilityLandmarks > 2
               then [''Too many key landmarks have low visibility''] else [])
        in case filter_invalid_coords landmark_list of
             Inl e \<Rightarrow> Inl e
           | Inr invalidCoords \<Rightarrow>
               let issues3 = issues2 @
                     (if length invalidCoords > 0
                      then [''Some landmarks have invalid coordinates''] else [])
               in Inr \<lparr>isValid = (length issues3 = 0), issues = issues3\<rparr>)"

section \<open>Definitions that follow the wording of the specification\<close>

text \<open>
  The definitions of this section are not translated from the code: they state, in the
  words of the specification, what the theorems below compare the code with, and they
  name the sample inputs.
\<close>

text \<open>A total that is a non-negative finite number or \<open>+Infinity\<close>.\<close>

definition nonneg_or_inf :: "jsnum \<Rightarrow> bool" where
  "nonneg_or_inf a = (case a of Fin r \<Rightarrow> 0 \<le> r | PInf \<Rightarrow> True | _ \<Rightarrow> False)"

text \<open>
  A landmark \<open>with numeric non-NaN x, y, z and visibility at least 0.3\<close>, as the
  identity property words it, and the same with finite coordinates.
\<close>

fun is_finite_number :: "jsnum option \<Rightarrow> bool" where
  "is_finite_number (Some (Fin r)) = True"
| "is_finite_number v = False"

fun numeric_non_NaN :: "jsnum option \<Rightarrow> bool" where
  "numeric_non_NaN None = False"
| "numeric_non_NaN (Some v) = (\<not> isNaN v)"

fun visibility_at_least :: "real \<Rightarrow> jsnum option \<Rightarrow> bool" where
  "visibility_at_least t None = False"
| "visibility_at_least t (Some v) = jge v (Fin t)"

definition claimed_valid_landmark :: "PoseLandmark option \<Rightarrow> bool" where
  "claimed_valid_landmark l =
     (case l of None \<Rightarrow> False
      | Some a \<Rightarrow> numeric_non_NaN (lm_x a) \<and> numeric_non_NaN (lm_y a) \<and> numeric_non_NaN (lm_z a) \<and>
          visibility_at_least (3/10) (visibility a))"

definition finite_valid_landmark :: "PoseLandmark option \<Rightarrow> bool" where
  "finite_valid_landmark l =
     (case l of None \<Rightarrow> False
      | Some a \<Rightarrow> is_finite_number (lm_x a) \<and> is_finite_number (lm_y a) \<and> is_finite_number (lm_z a) \<and>
          visibility_at_least (3/10) (visibility a))"

definition sample_landmark :: PoseLandmark where
  "sample_landmark = \<lparr>lm_x = Some (Fin (1/2)), lm_y = Some (Fin (1/2)), lm_z = Some (Fin (1/10)),
      visibility = Some (Fin (9/10))\<rparr>"

definition dim_landmark :: PoseLandmark where
  "dim_landmark = \<lparr>lm_x = Some (Fin (1/2)), lm_y = Some (Fin (1/2)), lm_z = Some (Fin (1/10)),
      visibility = Some (Fin (1/10))\<rparr>"

definition unseen_landmark :: PoseLandmark where
  "unseen_landmark = \<lparr>lm_x = Some (Fin (1/2)), lm_y = Some (Fin (1/2)), lm_z = Some (Fin (1/10)),
      visibility = Some (Fin 0)\<rparr>"

definition infinite_landmark :: PoseLandmark where
  "infinite_landmark = \<lparr>lm_x = Some PInf, lm_y = Some (Fin 0), lm_z = Some (Fin 0),
      visibility = Some (Fin 1)\<rparr>"

text \<open>
  The three reasons for which the specification skips a pair: a landmark that is not
  there or lacks a coordinate, a \<open>NaN\<close> coordinate, a visibility below \<open>0.3\<close> where an
  absent visibility counts as \<open>1.0\<close>.
\<close>

definition missing_numeric_field :: "PoseLandmark option \<Rightarrow> bool" where
  "missing_numeric_field l =
     (case l of None \<Rightarrow> True
      | Some a \<Rightarrow> lm_x a = None \<or> lm_y a = None \<or> lm_z a = None)"

definition NaN_numeric_field :: "PoseLandmark option \<Rightarrow> bool" where
  "NaN_numeric_field l =
     (case l of None \<Rightarrow> False
      | Some a \<Rightarrow> lm_x a = Some NaN \<or> lm_y a = Some NaN \<or> lm_z a = Some NaN)"

definition visibility_below_threshold :: "PoseLandmark option \<Rightarrow> bool" where
  "visibility_below_threshold l =
     (case l of None \<Rightarrow> False
      | Some a \<Rightarrow> jlt (case visibility a of None \<Rightarrow> Fin 1 | Some v \<Rightarrow> v) (Fin (3/10)))"

definition claimed_skip :: "PoseLandmark option \<Rightarrow> PoseLandmark option \<Rightarrow> bool" where
  "claimed_skip l1 l2 =
     (missing_numeric_field l1 \<or> missing_numeric_field l2 \<or>
      NaN_numeric_field l1 \<or> NaN_numeric_field l2 \<or>
      visibility_below_threshold l1 \<or> visibility_below_threshold l2)"

text \<open>
  Two landmarks with the same infinite value in a coordinate: their difference there is
  \<open>Infinity - Infinity\<close>. A visibility that \<open>||\<close> does not replace: absent, or a
  number other than \<open>0\<close> and \<open>NaN\<close>.
\<close>

fun same_infinity :: "jsnum option \<Rightarrow> jsnum option \<Rightarrow> bool" where
  "same_infinity (Some PInf) (Some PInf) = True"
| "same_infinity (Some NInf) (Some NInf) = True"
| "same_infinity a b = False"

definition distance_undefined :: "PoseLandmark option \<Rightarrow> PoseLandmark option \<Rightarrow> bool" where
  "distance_undefined l1 l2 =
     (case (l1, l2) of
        (Some a, Some b) \<Rightarrow>
          same_infinity (lm_x a) (lm_x b) \<or> same_infinity (lm_y a) (lm_y b) \<or>
          same_infinity (lm_z a) (lm_z b)
      | _ \<Rightarrow> False)"

definition visibility_not_falsy :: "PoseLandmark option \<Rightarrow> bool" where
  "visibility_not_falsy l =
     (case l of None \<Rightarrow> True
      | Some a \<Rightarrow> (case visibility a of None \<Rightarrow> True | Some v \<Rightarrow> truthy v))"

text \<open>
  The thirds of a list of frame scores, with boundaries at \<open>floor(n/3)\<close> and
  \<open>floor(2n/3)\<close>, the mean of a non-empty list of scores, and the feedback the
  specification describes: one line for each third whose mean is below \<open>0.6\<close>.
\<close>

definition mean_below :: "real list \<Rightarrow> real \<Rightarrow> bool" where
  "mean_below xs t = (xs \<noteq> [] \<and> sum_list xs / real (length xs) < t)"

definition beginning_third :: "'a list \<Rightarrow> 'a list" where
  "beginning_third xs = take (length xs div 3) xs"

definition middle_third :: "'a list \<Rightarrow> 'a list" where
  "middle_third xs = take (2 * length xs div 3 - length xs div 3) (drop (length xs div 3) xs)"

definition end_third :: "'a list \<Rightarrow> 'a list" where
  "end_third xs = drop (2 * length xs div 3) xs"

definition claimed_phase_feedback :: "real list \<Rightarrow> string list" where
  "claimed_phase_feedback rs =
     (if mean_below (beginning_third rs) (6/10) then [''Work on your starting position''] else []) @
     (if mean_below (middle_third rs) (6/10) then [''Focus on the middle phase of the movement''] else []) @
     (if mean_below (end_third rs) (6/10) then [''Pay attention to your ending position''] else [])"

text \<open>
  The mean of a list of scores as double arithmetic computes it: the scores are added
  one after the other to \<open>0\<close>, the sum is divided by their number, and every operation
  rounds. It is below the literal \<open>0.6\<close> when it is below the double \<open>rnd (6/10)\<close>. The
  mean of no scores is \<open>0 / 0\<close>, below nothing. The feedback with one line for each
  third whose mean, so computed, is below \<open>0.6\<close>.
\<close>

definition double_mean :: "(real \<Rightarrow> jsnum) \<Rightarrow> real list \<Rightarrow> jsnum" where
  "double_mean rnd xs =
     fl_div rnd (foldl (fl_add rnd) (Fin 0) (map Fin xs)) (Fin (real (length xs)))"

definition double_mean_below :: "(real \<Rightarrow> jsnum) \<Rightarrow> real list \<Rightarrow> bool" where
  "double_mean_below rnd xs = jlt (double_mean rnd xs) (rnd (6/10))"

definition computed_phase_feedback :: "(real \<Rightarrow> jsnum) \<Rightarrow> real list \<Rightarrow> string list" where
  "computed_phase_feedback rnd rs =
     (if double_mean_below rnd (beginning_third rs)
      then [''Work on your starting position''] else []) @
     (if double_mean_below rnd (middle_third rs)
      then [''Focus on the middle phase of the movement''] else []) @
     (if double_mean_below rnd (end_third rs)
      then [''Pay attention to your ending position''] else [])"

text \<open>
  What clamping into \<open>[0, 1]\<close> makes of a number: a value outside is saturated, and
  \<open>NaN\<close> stays \<open>NaN\<close>. A field that holds a finite number of \<open>[0, 1]\<close>.
\<close>

fun saturate01 :: "jsnum \<Rightarrow> jsnum" where
  "saturate01 (Fin r) = Fin (min 1 (max 0 r))"
| "saturate01 PInf = Fin 1"
| "saturate01 NInf = Fin 0"
| "saturate01 NaN = NaN"

fun in_unit_interval :: "jsnum option \<Rightarrow> bool" where
  "in_unit_interval (Some (Fin r)) = (0 \<le> r \<and> r \<le> 1)"
| "in_unit_interval v = False"

definition NaN_landmark :: PoseLandmark where
  "NaN_landmark = \<lparr>lm_x = Some NaN, lm_y = Some (Fin (1/2)), lm_z = Some (Fin 0),
      visibility = None\<rparr>"

definition offscreen_landmark :: PoseLandmark where
  "offscreen_landmark = \<lparr>lm_x = Some (Fin (-1/4)), lm_y = Some (Fin (3/2)), lm_z = Some (Fin (-2)),
      visibility = Some (Fin 7)\<rparr>"

text \<open>
  A landmark that is there and has a low visibility for the quality check: no visibility,
  or one below \<open>0.5\<close>.
\<close>

definition low_visibility :: "PoseLandmark option \<Rightarrow> bool" where
  "low_visibility l =
     (case l of None \<Rightarrow> False
      | Some landmark \<Rightarrow>
          (case visibility landmark of None \<Rightarrow> True | Some v \<Rightarrow> jlt v (Fin (1/2))))"

section \<open>Arithmetic of the number model\<close>

lemma isNaN_iff: "isNaN a \<longleftrightarrow> a = NaN"
  by (cases a) auto

lemma jmul_NaN_right: "jmul a NaN = NaN"
  by (cases a) auto

lemma jadd_NaN_right: "jadd a NaN = NaN"
  by (cases a) auto

lemma jsqrt_nonneg: "\<not> isNaN (jsqrt a) \<Longrightarrow> nonneg_or_inf (jsqrt a)"
  by (cases a) (auto simp: nonneg_or_inf_def)

lemma square_range: "d \<noteq> NaN \<Longrightarrow> nonneg_or_inf (jmul d d)"
  by (cases d) (auto simp: nonneg_or_inf_def)

lemma jadd_range: "nonneg_or_inf a \<Longrightarrow> nonneg_or_inf b \<Longrightarrow> nonneg_or_inf (jadd a b)"
  by (cases a; cases b) (auto simp: nonneg_or_inf_def)

lemma jsqrt_of_range: "nonneg_or_inf a \<Longrightarrow> jsqrt a \<noteq> NaN"
  by (cases a) (auto simp: nonneg_or_inf_def)

lemma distance_NaN_iff:
  "jsqrt (jadd (jadd (jmul dx dx) (jmul dy dy)) (jmul dz dz)) = NaN
     \<longleftrightarrow> dx = NaN \<or> dy = NaN \<or> dz = NaN"
proof (cases "dx = NaN \<or> dy = NaN \<or> dz = NaN")
  case True
  then show ?thesis by (auto simp: jadd_NaN_right)
next
  case False
  then have "nonneg_or_inf (jadd (jadd (jmul dx dx) (jmul dy dy)) (jmul dz dz))"
    by (intro jadd_range square_range) auto
  from jsqrt_of_range[OF this] False show ?thesis by simp
qed

lemma jsub_NaN_iff:
  "jsub a b = NaN \<longleftrightarrow> a = NaN \<or> b = NaN \<or> (a = PInf \<and> b = PInf) \<or> (a = NInf \<and> b = NInf)"
  by (cases a; cases b) (auto simp: jsub_def)

lemma jsq_sym: "jmul (jsub a b) (jsub a b) = jmul (jsub b a) (jsub b a)"
  by (cases a; cases b) (auto simp: jsub_def algebra_simps)

section \<open>The similarity score: range, symmetry, identity\<close>

lemma pair_contribution_range:
  assumes "pair_contribution i l1 l2 = Some (d, w)"
  shows "(w = Fin 1 \<or> w = Fin 2) \<and> nonneg_or_inf d"
proof -
  from assms obtain a b where ab: "l1 = Some a" "l2 = Some b"
    by (cases l1; cases l2) (auto simp: pair_contribution_def invalid_landmark_data_def)
  let ?dist = "euclidean_distance a b"
  from assms ab have nn: "\<not> isNaN ?dist" and
    d: "d = jmul ?dist w" and w: "w = (if i \<in> set keyLandmarkIndices then Fin 2 else Fin 1)"
    by (auto simp: pair_contribution_def Let_def split: if_splits)
  have "nonneg_or_inf ?dist"
    using nn unfolding euclidean_distance_def Let_def by (rule jsqrt_nonneg)
  with d w show ?thesis
    by (cases ?dist) (auto simp: nonneg_or_inf_def)
qed

lemma similarity_loop_range:
  "nonneg_or_inf td \<Longrightarrow> 0 \<le> w \<Longrightarrow> similarity_loop i p1 p2 (td, Fin w) = (td', vc')
   \<Longrightarrow> nonneg_or_inf td' \<and> (\<exists>w'. w \<le> w' \<and> vc' = Fin w')"
proof (induction i p1 p2 "(td, Fin w)" arbitrary: td w rule: similarity_loop.induct)
  case (1 i landmark1 pose1 landmark2 pose2 totalDistance)
  show ?case
  proof (cases "pair_contribution i landmark1 landmark2")
    case None
    with 1 show ?thesis by simp
  next
    case (Some c)
    obtain d u where c: "c = (d, u)" by (cases c)
    from pair_contribution_range[OF Some[unfolded c]]
    have u: "u = Fin 1 \<or> u = Fin 2" and d: "nonneg_or_inf d" by auto
    from u obtain ur where ur: "u = Fin ur" "1 \<le> ur" by auto
    have td2: "nonneg_or_inf (jadd totalDistance d)"
      using d "1.prems"(1) by (cases totalDistance; cases d) (auto simp: nonneg_or_inf_def)
    have "similarity_loop (Suc i) pose1 pose2 (jadd totalDistance d, Fin (w + ur)) = (td', vc')"
      using "1.prems"(3) Some c ur by simp
    from "1.hyps"[of "jadd totalDistance d" "w + ur", OF _ td2 _ this] Some c ur "1.prems"(2)
    show ?thesis by auto
  qed
qed auto

lemma similarity_score_range:
  "\<exists>r. calculateSimilarityScore A B = Fin r \<and> 0 \<le> r \<and> r \<le> 1"
proof (cases "\<exists>p1 p2. A = Some p1 \<and> B = Some p2 \<and> p1 \<noteq> [] \<and> p2 \<noteq> []")
  case False
  then have "calculateSimilarityScore A B = Fin 0"
    by (cases A; cases B) (auto simp: calculateSimilarityScore_def)
  then show ?thesis by simp
next
  case True
  then obtain p1 p2 where AB: "A = Some p1" "B = Some p2" "p1 \<noteq> []" "p2 \<noteq> []" by blast
  obtain td vc where loop: "similarity_loop 0 p1 p2 (Fin 0, Fin 0) = (td, vc)"
    by (cases "similarity_loop 0 p1 p2 (Fin 0, Fin 0)")
  have "nonneg_or_inf (Fin 0)" by (simp add: nonneg_or_inf_def)
  from similarity_loop_range[OF this _ loop]
  obtain w where td: "nonneg_or_inf td" and w: "0 \<le> w" "vc = Fin w" by auto
  show ?thesis
  proof (cases "w = 0")
    case True
    with AB loop w show ?thesis
      by (simp add: calculateSimilarityScore_def strict_eq_def)
  next
    case False
    with w have wpos: "0 < w" by simp
    from td show ?thesis
    proof (cases td)
      case (Fin t)
      with td have t: "0 \<le> t" by (simp add: nonneg_or_inf_def)
      have q: "0 \<le> t / w" using t wpos by simp
      have "calculateSimilarityScore A B =
              Math_min (Fin 1) (Math_max (Fin 0) (Fin (1 - (t / w) / (1/2))))"
        using AB loop w Fin False
        by (simp add: calculateSimilarityScore_def strict_eq_def jsub_def Let_def)
      also have "\<dots> = Fin (min 1 (max 0 (1 - (t / w) / (1/2))))"
        by (auto simp: Math_min_def Math_max_def)
      finally show ?thesis by auto
    next
      case PInf
      have "calculateSimilarityScore A B = Fin 0"
        using AB loop w PInf False wpos
        by (simp add: calculateSimilarityScore_def strict_eq_def jsub_def Let_def
                      Math_min_def Math_max_def)
      then show ?thesis by simp
    qed (simp_all add: nonneg_or_inf_def)
  qed
qed

text \<open>
  C5. For all inputs, also \<open>null\<close>, empty, of different lengths or with malformed
  landmarks, \<open>calculateSimilarityScore\<close> returns a finite number between 0 and 1.
\<close>

theorem calculateSimilarityScore_bounded:
  "\<exists>r. calculateSimilarityScore A B = Fin r \<and> 0 \<le> r \<and> r \<le> 1"
  by (rule similarity_score_range)

theorem calculateSimilarityScore_bounded_witness:
  "\<exists>r. calculateSimilarityScore (Some [Some sample_landmark])
          (Some [None, Some infinite_landmark]) = Fin r \<and> 0 \<le> r \<and> r \<le> 1"
  by (rule calculateSimilarityScore_bounded)

lemma euclidean_distance_sym: "euclidean_distance a b = euclidean_distance b a"
  unfolding euclidean_distance_def Let_def
  by (simp add: jsq_sym[of "ToNumber (lm_x a)"] jsq_sym[of "ToNumber (lm_y a)"] jsq_sym[of "ToNumber (lm_z a)"])

lemma invalid_landmark_data_sym: "invalid_landmark_data l1 l2 = invalid_landmark_data l2 l1"
  by (cases l1; cases l2) (auto simp: invalid_landmark_data_def)

lemma very_low_visibility_sym: "very_low_visibility a b = very_low_visibility b a"
  by (auto simp: very_low_visibility_def)

lemma pair_contribution_sym: "pair_contribution i l1 l2 = pair_contribution i l2 l1"
  by (cases l1; cases l2)
     (simp_all add: pair_contribution_def invalid_landmark_data_sym[of "Some _" "Some _"]
        invalid_landmark_data_def
        very_low_visibility_sym[of _ _] euclidean_distance_sym[of _ _])

lemma similarity_loop_sym: "similarity_loop i p1 p2 acc = similarity_loop i p2 p1 acc"
proof (induction p1 arbitrary: i p2 acc)
  case Nil
  show ?case by (cases p2) auto
next
  case (Cons landmark1 pose1)
  show ?case
  proof (cases p2)
    case Nil
    then show ?thesis by simp
  next
    case (Cons landmark2 pose2)
    obtain totalDistance validComparisons where acc: "acc = (totalDistance, validComparisons)"
      by (cases acc)
    show ?thesis
      unfolding Cons acc
      by (simp add: pair_contribution_sym[of i landmark1 landmark2] Cons.IH)
  qed
qed

text \<open>
  C4. \<open>calculateSimilarityScore\<close> is symmetric: exchanging the two landmark sets does
  not change the score.
\<close>

theorem calculateSimilarityScore_symmetric:
  "calculateSimilarityScore A B = calculateSimilarityScore B A"
  by (cases A; cases B)
     (auto simp: calculateSimilarityScore_def similarity_loop_sym[of 0])

theorem calculateSimilarityScore_symmetric_witness:
  "calculateSimilarityScore (Some [Some sample_landmark]) None =
   calculateSimilarityScore None (Some [Some sample_landmark])"
  by (rule calculateSimilarityScore_symmetric)

lemma is_finite_numberE: "is_finite_number v \<Longrightarrow> \<exists>r. v = Some (Fin r)"
  by (cases v rule: is_finite_number.cases) auto

lemma visibility_at_least_not_low:
  "visibility_at_least (3/10) v \<Longrightarrow> \<not> jlt (or_default v (Fin 1)) (Fin (3/10))"
  by (cases v; cases "the v") (auto simp: jge_def)

lemma pair_contribution_self:
  assumes "finite_valid_landmark l"
  shows "pair_contribution i l l =
           Some (Fin 0, if i \<in> set keyLandmarkIndices then Fin 2 else Fin 1)"
proof -
  from assms obtain a where a: "l = Some a" by (cases l) (auto simp: finite_valid_landmark_def)
  from assms a obtain rx ry rz where c: "lm_x a = Some (Fin rx)" "lm_y a = Some (Fin ry)" "lm_z a = Some (Fin rz)"
    by (auto simp: finite_valid_landmark_def dest!: is_finite_numberE)
  from assms a have v: "\<not> very_low_visibility a a"
    by (auto simp: finite_valid_landmark_def very_low_visibility_def dest: visibility_at_least_not_low)
  have d: "euclidean_distance a a = Fin 0"
    by (simp add: euclidean_distance_def c jsub_def)
  have i: "\<not> invalid_landmark_data (Some a) (Some a)"
    by (simp add: invalid_landmark_data_def c)
  show ?thesis
    unfolding a pair_contribution_def using i v d by simp
qed

lemma similarity_loop_self:
  "list_all finite_valid_landmark L \<Longrightarrow>
   \<exists>w'. w + real (length L) \<le> w' \<and> similarity_loop i L L (Fin 0, Fin w) = (Fin 0, Fin w')"
proof (induction L arbitrary: i w)
  case Nil
  then show ?case by simp
next
  case (Cons l L)
  then have l: "finite_valid_landmark l" and L: "list_all finite_valid_landmark L" by auto
  let ?u = "if i \<in> set keyLandmarkIndices then 2 else (1::real)"
  from Cons.IH[OF L, of "w + ?u" "Suc i"]
  obtain w' where "w + ?u + real (length L) \<le> w'"
    "similarity_loop (Suc i) L L (Fin 0, Fin (w + ?u)) = (Fin 0, Fin w')" by blast
  then show ?case
    using pair_contribution_self[OF l, of i] by (intro exI[of _ w']) auto
qed

lemma identity_score_general:
  assumes "L \<noteq> []" "list_all finite_valid_landmark L"
  shows "calculateSimilarityScore (Some L) (Some L) = Fin 1"
proof -
  from similarity_loop_self[OF assms(2), of 0 0]
  obtain w' where w: "real (length L) \<le> w'"
    and loop: "similarity_loop 0 L L (Fin 0, Fin 0) = (Fin 0, Fin w')" by auto
  from assms(1) w have "0 < w'" by (cases L) auto
  with assms(1) loop show ?thesis
    by (simp add: calculateSimilarityScore_def strict_eq_def jsub_def Math_max_def Math_min_def)
qed

text \<open>
  C3, as amended. For every set \<open>L\<close> of 33 landmarks whose \<open>x\<close>, \<open>y\<close> and \<open>z\<close> are
  finite numbers and whose visibility is at least \<open>0.3\<close>, the score of \<open>L\<close> against
  itself is 1.
\<close>

theorem identity_score_33:
  assumes "length L = 33" "list_all finite_valid_landmark L"
  shows "calculateSimilarityScore (Some L) (Some L) = Fin 1"
proof -
  from assms(1) have "L \<noteq> []" by auto
  then show ?thesis using assms(2) by (rule identity_score_general)
qed

theorem identity_score_33_witness:
  "length (replicate 33 (Some sample_landmark)) = 33 \<and>
   list_all finite_valid_landmark (replicate 33 (Some sample_landmark)) \<and>
   calculateSimilarityScore (Some (replicate 33 (Some sample_landmark)))
       (Some (replicate 33 (Some sample_landmark))) = Fin 1"
proof -
  have v: "finite_valid_landmark (Some sample_landmark)"
    by (simp add: finite_valid_landmark_def sample_landmark_def jge_def)
  have l: "length (replicate 33 (Some sample_landmark)) = 33" by simp
  have a: "list_all finite_valid_landmark (replicate 33 (Some sample_landmark))"
    using v by (simp add: list_all_iff)
  from identity_score_33[OF l a] l a show ?thesis by simp
qed

text \<open>
  C3 as worded asks only for coordinates that are numbers other than \<open>NaN\<close>.
  Thirty-three landmarks with \<open>x = Infinity\<close> meet that, and their score against
  themselves is 0: every difference is \<open>Infinity - Infinity\<close>, every distance is
  \<open>NaN\<close>, every pair is skipped by the guard on the distance, and no pair is left.
\<close>

lemma similarity_loop_all_skipped:
  "(\<And>i l. l \<in> set L \<Longrightarrow> pair_contribution i l l = None) \<Longrightarrow> similarity_loop i L L acc = acc"
  by (induction L arbitrary: i acc) (auto split: prod.splits)

lemma infinite_landmark_skipped:
  "pair_contribution i (Some infinite_landmark) (Some infinite_landmark) = None"
  by (simp add: pair_contribution_def invalid_landmark_data_def infinite_landmark_def
      very_low_visibility_def euclidean_distance_def jsub_def)

theorem identity_score_counterexample:
  "\<not> (\<forall>L. length L = 33 \<and> list_all claimed_valid_landmark L
          \<longrightarrow> calculateSimilarityScore (Some L) (Some L) = Fin 1)"
proof
  let ?L = "replicate 33 (Some infinite_landmark)"
  assume "\<forall>L. length L = 33 \<and> list_all claimed_valid_landmark L
          \<longrightarrow> calculateSimilarityScore (Some L) (Some L) = Fin 1"
  moreover have "list_all claimed_valid_landmark ?L"
    by (simp add: list_all_iff claimed_valid_landmark_def infinite_landmark_def jge_def)
  ultimately have one: "calculateSimilarityScore (Some ?L) (Some ?L) = Fin 1" by simp
  have "similarity_loop 0 ?L ?L (Fin 0, Fin 0) = (Fin 0, Fin 0)"
    by (rule similarity_loop_all_skipped) (simp add: infinite_landmark_skipped)
  then have "calculateSimilarityScore (Some ?L) (Some ?L) = Fin 0"
    by (simp add: calculateSimilarityScore_def strict_eq_def)
  with one show False by simp
qed

section \<open>Which pairs the scorer skips\<close>

lemma same_infinity_iff:
  "same_infinity u v \<longleftrightarrow> (u = Some PInf \<and> v = Some PInf) \<or> (u = Some NInf \<and> v = Some NInf)"
  by (cases "(u, v)" rule: same_infinity.cases) auto

lemma euclidean_distance_NaN_iff:
  assumes "lm_x a = Some x1" "lm_y a = Some y1" "lm_z a = Some z1"
      and "lm_x b = Some x2" "lm_y b = Some y2" "lm_z b = Some z2"
      and "x1 \<noteq> NaN" "y1 \<noteq> NaN" "z1 \<noteq> NaN" "x2 \<noteq> NaN" "y2 \<noteq> NaN" "z2 \<noteq> NaN"
  shows "isNaN (euclidean_distance a b) \<longleftrightarrow> distance_undefined (Some a) (Some b)"
  using assms
  by (simp add: euclidean_distance_def Let_def isNaN_iff distance_NaN_iff jsub_NaN_iff
        distance_undefined_def same_infinity_iff)

lemma or_default_truthy:
  "(case v of None \<Rightarrow> True | Some u \<Rightarrow> truthy u) \<Longrightarrow>
     or_default v d = (case v of None \<Rightarrow> d | Some u \<Rightarrow> u)"
  by (cases v) auto

lemma pair_skipped_iff:
  assumes "visibility_not_falsy l1" "visibility_not_falsy l2"
  shows "pair_contribution i l1 l2 = None \<longleftrightarrow> claimed_skip l1 l2 \<or> distance_undefined l1 l2"
proof (cases "invalid_landmark_data l1 l2")
  case True
  then have "pair_contribution i l1 l2 = None" by (simp add: pair_contribution_def)
  moreover from True have "missing_numeric_field l1 \<or> missing_numeric_field l2 \<or>
      NaN_numeric_field l1 \<or> NaN_numeric_field l2"
    by (cases l1; cases l2)
       (auto simp: invalid_landmark_data_def missing_numeric_field_def NaN_numeric_field_def
          isNaN_iff elim: not_a_number_type.elims)
  ultimately show ?thesis by (auto simp: claimed_skip_def)
next
  case False
  then obtain a b where ab: "l1 = Some a" "l2 = Some b"
    by (cases l1; cases l2) (auto simp: invalid_landmark_data_def)
  from False ab obtain x1 y1 z1 x2 y2 z2 where
    c: "lm_x a = Some x1" "lm_y a = Some y1" "lm_z a = Some z1"
       "lm_x b = Some x2" "lm_y b = Some y2" "lm_z b = Some z2"
    by (cases "lm_x a"; cases "lm_y a"; cases "lm_z a"; cases "lm_x b"; cases "lm_y b"; cases "lm_z b")
       (auto simp: invalid_landmark_data_def)
  from False ab c have n: "x1 \<noteq> NaN" "y1 \<noteq> NaN" "z1 \<noteq> NaN" "x2 \<noteq> NaN" "y2 \<noteq> NaN" "z2 \<noteq> NaN"
    by (auto simp: invalid_landmark_data_def)
  have nomiss: "\<not> missing_numeric_field l1" "\<not> missing_numeric_field l2"
      "\<not> NaN_numeric_field l1" "\<not> NaN_numeric_field l2"
    using ab c n by (auto simp: missing_numeric_field_def NaN_numeric_field_def)
  have vis: "very_low_visibility a b \<longleftrightarrow> visibility_below_threshold l1 \<or> visibility_below_threshold l2"
    using assms ab
    by (simp add: very_low_visibility_def visibility_below_threshold_def visibility_not_falsy_def
          or_default_truthy)
  have "pair_contribution i l1 l2 = None \<longleftrightarrow>
          very_low_visibility a b \<or> isNaN (euclidean_distance a b)"
    using False ab by (simp add: pair_contribution_def Let_def)
  also have "\<dots> \<longleftrightarrow> claimed_skip l1 l2 \<or> distance_undefined l1 l2"
    using nomiss vis euclidean_distance_NaN_iff[OF c n] ab by (simp add: claimed_skip_def)
  finally show ?thesis .
qed

lemma similarity_loop_by_index:
  "similarity_loop k A B acc = foldl (index_step k A B) acc [0..<min (length A) (length B)]"
proof (induction A arbitrary: k B acc)
  case Nil
  show ?case by simp
next
  case (Cons a A)
  show ?case
  proof (cases B)
    case Nil
    then show ?thesis by simp
  next
    case (Cons b B')
    obtain td vc where acc: "acc = (td, vc)" by (cases acc)
    have shift: "index_step k (a # A) (b # B') acc' (Suc i) = index_step (Suc k) A B' acc' i" for acc' i
      by (simp add: index_step_def)
    have upt: "[0..<min (length (a # A)) (length (b # B'))] =
                 0 # map Suc [0..<min (length A) (length B')]"
      by (simp add: upt_conv_Cons map_Suc_upt del: upt_Suc)
    have "foldl (index_step k (a # A) (b # B')) acc [0..<min (length (a # A)) (length (b # B'))]
        = foldl (index_step (Suc k) A B') (index_step k (a # A) (b # B') acc 0)
            [0..<min (length A) (length B')]"
      unfolding upt by (simp add: foldl_map shift)
    moreover have "index_step k (a # A) (b # B') acc 0 =
        (case pair_contribution k a b of None \<Rightarrow> (td, vc)
         | Some (d, w) \<Rightarrow> (jadd td d, jadd vc w))"
      by (simp add: index_step_def acc split: option.split)
    ultimately show ?thesis
      unfolding Cons acc by (simp add: Cons.IH)
  qed
qed

text \<open>
  C1, as amended. At every index below the shorter length where the visibility of each
  landmark is absent or a number other than \<open>0\<close> and \<open>NaN\<close>, the pair is skipped exactly
  when a landmark is missing or lacks a numeric coordinate, a coordinate is \<open>NaN\<close>, a
  visibility (absent read as \<open>1.0\<close>) is below \<open>0.3\<close>, or the two landmarks have the same
  infinite value in a coordinate, which makes the distance \<open>NaN\<close>.
\<close>

theorem pair_skipped_at_index:
  assumes "i < min (length A) (length B)"
      and "visibility_not_falsy (A ! i)" and "visibility_not_falsy (B ! i)"
  shows "pair_contribution i (A ! i) (B ! i) = None \<longleftrightarrow>
           claimed_skip (A ! i) (B ! i) \<or> distance_undefined (A ! i) (B ! i)"
  using assms(2,3) by (rule pair_skipped_iff)

theorem pair_skipped_at_index_witness:
  "0 < min (length [Some sample_landmark]) (length [Some dim_landmark]) \<and>
   visibility_not_falsy ([Some sample_landmark] ! 0) \<and>
   visibility_not_falsy ([Some dim_landmark] ! 0) \<and>
   claimed_skip ([Some sample_landmark] ! 0) ([Some dim_landmark] ! 0) \<and>
   pair_contribution 0 ([Some sample_landmark] ! 0) ([Some dim_landmark] ! 0) = None"
proof -
  have i: "0 < min (length [Some sample_landmark]) (length [Some dim_landmark])" by simp
  have v1: "visibility_not_falsy ([Some sample_landmark] ! 0)"
    by (simp add: visibility_not_falsy_def sample_landmark_def)
  have v2: "visibility_not_falsy ([Some dim_landmark] ! 0)"
    by (simp add: visibility_not_falsy_def dim_landmark_def)
  have c: "claimed_skip ([Some sample_landmark] ! 0) ([Some dim_landmark] ! 0)"
    by (simp add: claimed_skip_def visibility_below_threshold_def dim_landmark_def)
  from pair_skipped_at_index[OF i v1 v2] c i v1 v2 show ?thesis by blast
qed

text \<open>
  C1 as worded has no fourth reason. Two landmarks with \<open>x = Infinity\<close> are
  skipped, by the guard on a \<open>NaN\<close> distance, though none of its three reasons holds.
\<close>

theorem pair_skipped_counterexample:
  "pair_contribution 0 (Some infinite_landmark) (Some infinite_landmark) = None \<and>
   \<not> claimed_skip (Some infinite_landmark) (Some infinite_landmark)"
proof
  show "pair_contribution 0 (Some infinite_landmark) (Some infinite_landmark) = None"
    by (rule infinite_landmark_skipped)
  show "\<not> claimed_skip (Some infinite_landmark) (Some infinite_landmark)"
    by (simp add: claimed_skip_def missing_numeric_field_def NaN_numeric_field_def
          visibility_below_threshold_def infinite_landmark_def)
qed

text \<open>
  A visibility of exactly \<open>0\<close> is falsy, so \<open>visibility || 1\<close> reads it as \<open>1\<close>: the
  pair is counted, and a pose of such landmarks scores 1 against itself.
\<close>

lemma visibility_zero_is_counted:
  "claimed_skip (Some unseen_landmark) (Some unseen_landmark) \<and>
   pair_contribution 0 (Some unseen_landmark) (Some unseen_landmark) = Some (Fin 0, Fin 2) \<and>
   calculateSimilarityScore (Some [Some unseen_landmark]) (Some [Some unseen_landmark]) = Fin 1"
  by (simp add: claimed_skip_def visibility_below_threshold_def unseen_landmark_def
        pair_contribution_def invalid_landmark_data_def very_low_visibility_def
        euclidean_distance_def jsub_def keyLandmarkIndices_def calculateSimilarityScore_def
        strict_eq_def Math_max_def Math_min_def)

section \<open>The temporal score of a single frame\<close>

lemma temporal_weight_single: "temporal_weight (Suc 0) 0 = NaN"
  by (simp add: temporal_weight_def jsub_def)

lemma temporal_score_singleton: "calculateTemporalScore [s] = Fin 0"
  by (simp add: calculateTemporalScore_def temporal_weight_single jmul_NaN_right jadd_NaN_right
        jgt_def)

text \<open>
  C2. The claim says that a one-element list of frame scores aggregates to its element,
  so that two one-frame sequences are scored by their single frame comparison.
  The code divides \<open>0\<close> by \<open>length - 1 = 0\<close>: the position, the weight and both sums
  are \<open>NaN\<close>, \<open>totalWeight > 0\<close> is false, and the result is 0 whatever the score.
  Two one-frame sequences therefore score 0 and never match, whatever their frames and
  the difficulty.
\<close>

theorem single_frame_scores_zero:
  "calculateTemporalScore [s] = Fin 0 \<and>
   score (compareMovementSequence rnd toFixed1 (Array [Some frame1]) (Array [Some frame2])
            difficulty) = Fin 0 \<and>
   \<not> isMatch (compareMovementSequence rnd toFixed1 (Array [Some frame1]) (Array [Some frame2])
          difficulty)"
  by (cases difficulty)
     (simp_all add: compareMovementSequence_def normalizeSequenceLength_def
        temporal_score_singleton jge_def Let_def)

section \<open>comparePoses: guards and thresholds\<close>

text \<open>
  C7. With an argument that is not an array \<open>comparePoses\<close> returns the fixed result
  with the feedback \<open>Invalid pose data provided\<close>; with two arrays of which one is empty
  it returns the fixed result with the feedback \<open>Missing pose landmarks\<close>. Both have
  \<open>isMatch = false\<close> and \<open>score = 0\<close>, for every difficulty and whatever the landmarks
  are: nothing is scored.
\<close>

theorem comparePoses_invalid_or_missing:
  "(recorded = NotArray \<or> current = NotArray \<longrightarrow>
      comparePoses toFixed1 recorded current difficulty =
        \<lparr>isMatch = False, score = Fin 0, feedback = [''Invalid pose data provided''],
         suggestions = [''Ensure both poses have valid landmark data'']\<rparr>) \<and>
   (recorded = Array r \<and> current = Array c \<and> (r = [] \<or> c = []) \<longrightarrow>
      comparePoses toFixed1 recorded current difficulty =
        \<lparr>isMatch = False, score = Fin 0, feedback = [''Missing pose landmarks''],
         suggestions = [''Ensure pose is detected properly'']\<rparr>)"
  by (cases recorded; cases current) (auto simp: comparePoses_def)

theorem comparePoses_invalid_or_missing_witness:
  "comparePoses (\<lambda>n. []) NotArray (Array [Some sample_landmark]) Medium =
        \<lparr>isMatch = False, score = Fin 0, feedback = [''Invalid pose data provided''],
         suggestions = [''Ensure both poses have valid landmark data'']\<rparr> \<and>
   comparePoses (\<lambda>n. []) (Array []) (Array [Some sample_landmark]) Medium =
        \<lparr>isMatch = False, score = Fin 0, feedback = [''Missing pose landmarks''],
         suggestions = [''Ensure pose is detected properly'']\<rparr>"
  using comparePoses_invalid_or_missing[of NotArray "Array [Some sample_landmark]" "\<lambda>n. []" Medium]
    comparePoses_invalid_or_missing[of "Array []" "Array [Some sample_landmark]" "\<lambda>n. []" Medium
       "[]" "[Some sample_landmark]"]
  by simp

lemma generatePoseFeedback_error:
  "(\<exists>e. generatePoseFeedback f r c s t = Inl e) \<longleftrightarrow> (\<exists>e. analyzeBodyPartDifferences r c = Inl e)"
  by (auto simp: generatePoseFeedback_def Let_def split: sum.splits)

lemma generatePoseSuggestions_error:
  "(\<exists>e. generatePoseSuggestions r c d = Inl e) \<longleftrightarrow> (\<exists>e. findMajorDifferences r c = Inl e)"
  by (auto simp: generatePoseSuggestions_def Let_def split: sum.splits)

lemma comparePoses_isMatch:
  "isMatch (comparePoses f recorded current d) \<longleftrightarrow>
     (\<exists>r c. recorded = Array r \<and> current = Array c \<and> r \<noteq> [] \<and> c \<noteq> [] \<and>
        (\<exists>fb. analyzeBodyPartDifferences r c = Inr fb) \<and>
        (\<exists>m. findMajorDifferences r c = Inr m) \<and>
        jge (calculateSimilarityScore (Some r) (Some c)) (DIFFICULTY_THRESHOLDS d))"
proof (cases "\<exists>r c. recorded = Array r \<and> current = Array c \<and> r \<noteq> [] \<and> c \<noteq> []")
  case False
  then show ?thesis
    by (cases recorded; cases current) (auto simp: comparePoses_def)
next
  case True
  then obtain r c where rc: "recorded = Array r" "current = Array c" "r \<noteq> []" "c \<noteq> []"
    by blast
  let ?s = "calculateSimilarityScore (Some r) (Some c)"
  let ?t = "DIFFICULTY_THRESHOLDS d"
  show ?thesis
  proof (cases "generatePoseFeedback f r c ?s ?t")
    case (Inl e)
    with generatePoseFeedback_error[of f r c ?s ?t] rc show ?thesis
      by (auto simp: comparePoses_def Let_def)
  next
    case fb: (Inr fb)
    with generatePoseFeedback_error[of f r c ?s ?t]
    have a: "\<exists>fb. analyzeBodyPartDifferences r c = Inr fb"
      by (cases "analyzeBodyPartDifferences r c") auto
    show ?thesis
    proof (cases "generatePoseSuggestions r c d")
      case (Inl e)
      with generatePoseSuggestions_error[of r c d] rc fb show ?thesis
        by (auto simp: comparePoses_def Let_def)
    next
      case (Inr sg)
      with generatePoseSuggestions_error[of r c d]
      have "\<exists>m. findMajorDifferences r c = Inr m"
        by (cases "findMajorDifferences r c") auto
      with a rc fb Inr show ?thesis
        by (auto simp: comparePoses_def Let_def)
    qed
  qed
qed

lemma threshold_order:
  "jge s (DIFFICULTY_THRESHOLDS Hard) \<Longrightarrow> jge s (DIFFICULTY_THRESHOLDS Medium)"
  "jge s (DIFFICULTY_THRESHOLDS Medium) \<Longrightarrow> jge s (DIFFICULTY_THRESHOLDS Soft)"
  by (cases s; simp add: jge_def)+

text \<open>
  C6. For fixed landmark sets, a match at difficulty hard is a match at medium, and a
  match at medium is a match at soft; the thresholds are 0.70 for soft, 0.80 for medium
  and 0.90 for hard.
\<close>

theorem comparePoses_antitone:
  "(isMatch (comparePoses toFixed1 recorded current Hard) \<longrightarrow>
      isMatch (comparePoses toFixed1 recorded current Medium)) \<and>
   (isMatch (comparePoses toFixed1 recorded current Medium) \<longrightarrow>
      isMatch (comparePoses toFixed1 recorded current Soft)) \<and>
   DIFFICULTY_THRESHOLDS Soft = Fin (70/100) \<and>
   DIFFICULTY_THRESHOLDS Medium = Fin (80/100) \<and>
   DIFFICULTY_THRESHOLDS Hard = Fin (90/100)"
proof (intro conjI impI)
  assume "isMatch (comparePoses toFixed1 recorded current Hard)"
  then show "isMatch (comparePoses toFixed1 recorded current Medium)"
    unfolding comparePoses_isMatch by (blast intro: threshold_order)
next
  assume "isMatch (comparePoses toFixed1 recorded current Medium)"
  then show "isMatch (comparePoses toFixed1 recorded current Soft)"
    unfolding comparePoses_isMatch by (blast intro: threshold_order)
qed simp_all

lemma sample_score: "calculateSimilarityScore (Some [Some sample_landmark]) (Some [Some sample_landmark]) = Fin 1"
  by (simp add: calculateSimilarityScore_def pair_contribution_def invalid_landmark_data_def
       very_low_visibility_def euclidean_distance_def sample_landmark_def jsub_def
       keyLandmarkIndices_def strict_eq_def Math_max_def Math_min_def)

lemma sample_parts:
  "analyzeBodyPartDifferences [Some sample_landmark] [Some sample_landmark] = Inr []"
  by (simp add: analyzeBodyPartDifferences_def bodyParts_def part_differs_def
        euclidean_distance_def sample_landmark_def jsub_def jge_def jgt_def)

lemma sample_major:
  "findMajorDifferences [Some sample_landmark] [Some sample_landmark] =
     Inr \<lparr>arms = False, legs = False, torso = False, head = False\<rparr>"
  by (simp add: findMajorDifferences_def bodyParts_def part_differs_def
        euclidean_distance_def sample_landmark_def jsub_def jge_def jgt_def)

lemma sample_hard_match:
  "isMatch (comparePoses (\<lambda>n. []) (Array [Some sample_landmark]) (Array [Some sample_landmark]) Hard)"
  by (simp add: comparePoses_def sample_score generatePoseFeedback_def sample_parts
       generatePoseSuggestions_def sample_major jge_def)

theorem comparePoses_antitone_witness:
  "isMatch (comparePoses (\<lambda>n. []) (Array [Some sample_landmark]) (Array [Some sample_landmark]) Hard) \<and>
   isMatch (comparePoses (\<lambda>n. []) (Array [Some sample_landmark]) (Array [Some sample_landmark]) Medium) \<and>
   isMatch (comparePoses (\<lambda>n. []) (Array [Some sample_landmark]) (Array [Some sample_landmark]) Soft)"
  using comparePoses_antitone[of "\<lambda>n. []" "Array [Some sample_landmark]" "Array [Some sample_landmark]"]
    sample_hard_match by blast

section \<open>Resampling\<close>

text \<open>
  Two checks of \<open>normalizeSequenceLength\<close>. In exact arithmetic two frames resampled to
  four give each frame twice. An empty sequence has no frame to read, whatever the
  rounding: \<open>sequence[-1]\<close> is \<open>undefined\<close>.
\<close>

lemma resample_two_to_four:
  "normalizeSequenceLength Fin
     [Some \<lparr>timestamp = t0, landmarks = Some l0\<rparr>, Some \<lparr>timestamp = t1, landmarks = Some l1\<rparr>] 4 =
   Inr [Some \<lparr>timestamp = t0, landmarks = Some l0\<rparr>, Some \<lparr>timestamp = t0, landmarks = Some l0\<rparr>,
        Some \<lparr>timestamp = t1, landmarks = Some l1\<rparr>, Some \<lparr>timestamp = t1, landmarks = Some l1\<rparr>]"
proof -
  have u: "[0..<4] = [0, 1, 2, 3]" by (simp add: upt_rec)
  show ?thesis
    by (simp add: normalizeSequenceLength_def u resampled_frame_def fl_div_def fl_mul_def
          Math_min_def jsub_def)
qed

lemma element_at_empty: "element_at [] v = None"
  by (cases v) auto

lemma resampled_frame_empty: "resampled_frame rnd [] targetLength i = Inl TypeError"
  by (simp add: resampled_frame_def Let_def element_at_empty)

section \<open>The phases of a movement\<close>

lemma phases_short: "length rs < 3 \<Longrightarrow> analyzeMovementPhases rnd (map Fin rs) = []"
  by (simp add: analyzeMovementPhases_def)

lemma phases_long:
  assumes "3 \<le> length rs"
  shows "analyzeMovementPhases rnd (map Fin rs) =
     (if double_mean_below rnd (beginning_third rs)
      then [''Work on your starting position''] else []) @
     (if jlt (fl_div rnd (reduce_sum rnd (map Fin (middle_third rs)))
                (Fin (real (length rs div 3)))) (rnd (6/10))
      then [''Focus on the middle phase of the movement''] else []) @
     (if double_mean_below rnd (end_third rs)
      then [''Pay attention to your ending position''] else [])"
proof -
  let ?n = "length rs"
  have b: "length (beginning_third rs) = ?n div 3"
    by (simp add: beginning_third_def)
  have e: "length (end_third rs) = ?n - 2 * ?n div 3"
    by (simp add: end_third_def)
  have le: "2 * ?n div 3 \<le> ?n" by simp
  have ediv: "jsub (Fin (real ?n)) (Fin (real (2 * ?n div 3))) = Fin (real (?n - 2 * ?n div 3))"
    using le by (simp add: jsub_def of_nat_diff)
  have B: "fl_div rnd (reduce_sum rnd (slice (map Fin rs) 0 (?n div 3))) (Fin (real (?n div 3)))
             = double_mean rnd (beginning_third rs)"
    by (simp add: double_mean_def reduce_sum_def b slice_def beginning_third_def take_map)
  have M: "slice (map Fin rs) (?n div 3) (2 * ?n div 3) = map Fin (middle_third rs)"
    by (simp add: slice_def middle_third_def take_map drop_map)
  have E: "fl_div rnd (reduce_sum rnd (drop (2 * ?n div 3) (map Fin rs)))
               (jsub (Fin (real ?n)) (Fin (real (2 * ?n div 3))))
             = double_mean rnd (end_third rs)"
    by (simp add: double_mean_def reduce_sum_def e ediv end_third_def drop_map)
  show ?thesis
    using assms unfolding analyzeMovementPhases_def Let_def length_map B M E
    by (simp add: double_mean_below_def)
qed

lemma two_thirds_regular:
  fixes n :: nat
  assumes "n mod 3 \<noteq> 2"
  shows "2 * n div 3 - n div 3 = n div 3"
proof -
  define k where "k = n div 3"
  define r where "r = n mod 3"
  have n: "n = 3 * k + r" by (simp add: k_def r_def)
  have r: "r = 0 \<or> r = 1" using assms unfolding r_def by linarith
  have "2 * n = r * 2 + k * 2 * 3" by (simp add: n)
  then have "2 * n div 3 = r * 2 div 3 + k * 2" by (simp only: div_mult_self1)
  with r have "2 * n div 3 = 2 * k" by auto
  then show ?thesis by (simp add: k_def)
qed

lemma middle_third_length:
  assumes "length xs mod 3 \<noteq> 2"
  shows "length (middle_third xs) = length xs div 3"
proof -
  have "2 * length xs div 3 - length xs div 3 \<le> length xs - length xs div 3" by linarith
  with two_thirds_regular[OF assms] show ?thesis by (simp add: middle_third_def)
qed

lemma phases_regular:
  assumes "3 \<le> length rs" "length rs mod 3 \<noteq> 2"
  shows "analyzeMovementPhases rnd (map Fin rs) = computed_phase_feedback rnd rs"
proof -
  have l: "length (middle_third rs) = length rs div 3"
    using assms(2) by (rule middle_third_length)
  have "fl_div rnd (reduce_sum rnd (map Fin (middle_third rs))) (Fin (real (length rs div 3)))
          = double_mean rnd (middle_third rs)"
    by (simp add: double_mean_def reduce_sum_def l)
  then show ?thesis
    by (simp add: phases_long[OF assms(1)] computed_phase_feedback_def double_mean_below_def)
qed

text \<open>
  In exact arithmetic the computed mean of a non-empty list is its mean, and the
  computed feedback is the feedback the specification describes.
\<close>

lemma foldl_jadd_Fin: "foldl (fl_add Fin) (Fin a) (map Fin rs) = Fin (a + sum_list rs)"
  by (induction rs arbitrary: a) (auto simp: fl_add_def add.assoc)

lemma exact_mean_below: "double_mean_below Fin xs \<longleftrightarrow> mean_below xs (6/10)"
  by (cases "xs = []")
     (simp_all add: double_mean_below_def double_mean_def foldl_jadd_Fin fl_div_def mean_below_def)

lemma exact_phase_feedback: "computed_phase_feedback Fin rs = claimed_phase_feedback rs"
  by (simp add: computed_phase_feedback_def claimed_phase_feedback_def exact_mean_below)

text \<open>
  In \<open>compareMovementSequence\<close> the frame scores are values of the scorer, so they are
  finite numbers, and the feedback is a headline followed by the lines of
  \<open>analyzeMovementPhases\<close> on the frame scores.
\<close>

lemma frame_scores_finite:
  "frame_scores normalizedRecorded normalizedCurrent = Inr frameScores \<Longrightarrow>
     \<exists>rs. frameScores = map Fin rs"
proof (induction normalizedRecorded normalizedCurrent arbitrary: frameScores
        rule: frame_scores.induct)
  case (1 r normalizedRecorded c normalizedCurrent)
  from "1.prems" obtain frame1 frame2 rest where
    f: "r = Some frame1" "c = Some frame2"
    and rest: "frame_scores normalizedRecorded normalizedCurrent = Inr rest"
    and fs: "frameScores = calculateSimilarityScore (landmarks frame1) (landmarks frame2) # rest"
    by (auto split: option.splits sum.splits)
  from "1.IH"[OF f rest] obtain rs where rs: "rest = map Fin rs" by blast
  from similarity_score_range[of "landmarks frame1" "landmarks frame2"]
  obtain x where "calculateSimilarityScore (landmarks frame1) (landmarks frame2) = Fin x" by blast
  with fs rs have "frameScores = map Fin (x # rs)" by simp
  then show ?case by blast
qed auto

lemma movement_feedback_phases:
  "tl (generateMovementFeedback rnd toFixed1 frameScores overallScore threshold) =
     analyzeMovementPhases rnd frameScores"
  by (simp add: generateMovementFeedback_def Let_def)

text \<open>
  C8, as amended. Whatever the rounding of the double operations: for a list of at least
  three finite frame scores, the line for the beginning is appended exactly when the
  mean of the first third, computed in double arithmetic, is below \<open>0.6\<close>, and the line
  for the end exactly when the computed mean of the last third is; when the length is not
  2 modulo 3, the feedback has one line for each third whose computed mean is below
  \<open>0.6\<close>, the middle line included, in the order beginning, middle, end. For fewer than
  three scores no line is appended.
\<close>

theorem phase_feedback_amended:
  "(length rs < 3 \<longrightarrow> analyzeMovementPhases rnd (map Fin rs) = []) \<and>
   (3 \<le> length rs \<longrightarrow>
      (''Work on your starting position'' \<in> set (analyzeMovementPhases rnd (map Fin rs))
         \<longleftrightarrow> double_mean_below rnd (beginning_third rs)) \<and>
      (''Pay attention to your ending position'' \<in> set (analyzeMovementPhases rnd (map Fin rs))
         \<longleftrightarrow> double_mean_below rnd (end_third rs))) \<and>
   (3 \<le> length rs \<and> length rs mod 3 \<noteq> 2 \<longrightarrow>
      analyzeMovementPhases rnd (map Fin rs) = computed_phase_feedback rnd rs)"
proof (intro conjI impI)
  assume "length rs < 3"
  then show "analyzeMovementPhases rnd (map Fin rs) = []" by (rule phases_short)
next
  assume "3 \<le> length rs"
  then show "''Work on your starting position'' \<in> set (analyzeMovementPhases rnd (map Fin rs))
         \<longleftrightarrow> double_mean_below rnd (beginning_third rs)"
    by (simp add: phases_long)
next
  assume "3 \<le> length rs"
  then show "''Pay attention to your ending position'' \<in> set (analyzeMovementPhases rnd (map Fin rs))
         \<longleftrightarrow> double_mean_below rnd (end_third rs)"
    by (simp add: phases_long)
next
  assume "3 \<le> length rs \<and> length rs mod 3 \<noteq> 2"
  then show "analyzeMovementPhases rnd (map Fin rs) = computed_phase_feedback rnd rs"
    by (simp add: phases_regular)
qed

text \<open>
  C8 as worded covers every list. For the two scores \<open>[0, 0]\<close> the middle and the
  last third have the mean 0, and the code, which returns early below three frames,
  appends nothing, whatever the rounding.
\<close>

lemma claimed_two_zeros:
  "claimed_phase_feedback [0, 0] =
     [''Focus on the middle phase of the movement'', ''Pay attention to your ending position'']"
  by (simp add: claimed_phase_feedback_def mean_below_def beginning_third_def
        middle_third_def end_third_def)

theorem phase_feedback_counterexample:
  "\<forall>rnd. analyzeMovementPhases rnd (map Fin [0, 0]) \<noteq> claimed_phase_feedback [0, 0]"
  unfolding claimed_two_zeros by (simp add: analyzeMovementPhases_def)

lemma computed_three:
  "computed_phase_feedback Fin [1/2, 1, 1/2] =
     [''Work on your starting position'', ''Pay attention to your ending position'']"
  unfolding exact_phase_feedback
  by (simp add: claimed_phase_feedback_def mean_below_def beginning_third_def
        middle_third_def end_third_def)

theorem phase_feedback_amended_witness:
  "analyzeMovementPhases Fin (map Fin [1/2, 1, 1/2]) =
     [''Work on your starting position'', ''Pay attention to your ending position''] \<and>
   analyzeMovementPhases Fin (map Fin [0, 0]) = []"
proof
  have "3 \<le> length [1/2, 1, 1/2 :: real] \<and> length [1/2, 1, 1/2 :: real] mod 3 \<noteq> 2" by simp
  with phase_feedback_amended[of "[1/2, 1, 1/2]" Fin]
  have "analyzeMovementPhases Fin (map Fin [1/2, 1, 1/2]) =
          computed_phase_feedback Fin [1/2, 1, 1/2]"
    by blast
  then show "analyzeMovementPhases Fin (map Fin [1/2, 1, 1/2]) =
     [''Work on your starting position'', ''Pay attention to your ending position'']"
    by (simp only: computed_three)
  have "length [0, 0 :: real] < 3" by simp
  with phase_feedback_amended[of "[0, 0]" Fin]
  show "analyzeMovementPhases Fin (map Fin [0, 0]) = []" by blast
qed

text \<open>
  The middle third is divided by \<open>floor(n/3)\<close>, which is not its size when \<open>n\<close> is 2
  modulo 3: for five scores the two middle scores \<open>0.5, 0.5\<close> are divided by 1, and the
  line for the middle phase is not appended although their mean is below \<open>0.6\<close>. The
  scores and the results of the operations are doubles, so nothing rounds here.
\<close>

lemma middle_phase_divisor:
  "analyzeMovementPhases Fin (map Fin [1, 1/2, 1/2, 1, 1]) = [] \<and>
   claimed_phase_feedback [1, 1/2, 1/2, 1, 1] = [''Focus on the middle phase of the movement'']"
proof
  show "analyzeMovementPhases Fin (map Fin [1, 1/2, 1/2, 1, 1]) = []"
    by (simp add: analyzeMovementPhases_def slice_def reduce_sum_def jsub_def fl_add_def
          fl_div_def)
  show "claimed_phase_feedback [1, 1/2, 1/2, 1, 1] = [''Focus on the middle phase of the movement'']"
    by (simp add: claimed_phase_feedback_def mean_below_def beginning_third_def
        middle_third_def end_third_def)
qed

section \<open>Normalization\<close>

lemma clamp_saturates: "Math_max (Fin 0) (Math_min (Fin 1) v) = saturate01 v"
  by (cases v) (auto simp: Math_max_def Math_min_def)

lemma saturate01_in_unit: "v \<noteq> NaN \<Longrightarrow> in_unit_interval (Some (saturate01 v))"
  by (cases v) auto

lemma normalizePoseData_map: "normalizePoseData ls = map normalizeLandmark ls"
  by (simp add: normalizePoseData_def normalizeLandmark_def)

text \<open>
  C9, as amended. For every landmark, normalization clamps an \<open>x\<close> and a \<open>y\<close> that is
  a number other than \<open>NaN\<close> into \<open>[0, 1]\<close>, saturating values outside, returns \<open>z\<close>
  unchanged, clamps a visibility that is present and not \<open>NaN\<close> into \<open>[0, 1]\<close>, and
  leaves an absent visibility absent; a \<open>NaN\<close> in \<open>x\<close>, \<open>y\<close> or the visibility stays
  \<open>NaN\<close>. \<open>normalizePoseData\<close> does the same to every landmark of a list. Both are
  total: no input is rejected.
\<close>

theorem normalizeLandmark_clamps:
  "(\<forall>v. lm_x l = Some v \<and> v \<noteq> NaN \<longrightarrow>
       lm_x (normalizeLandmark l) = Some (saturate01 v) \<and> in_unit_interval (lm_x (normalizeLandmark l))) \<and>
   (\<forall>v. lm_y l = Some v \<and> v \<noteq> NaN \<longrightarrow>
       lm_y (normalizeLandmark l) = Some (saturate01 v) \<and> in_unit_interval (lm_y (normalizeLandmark l))) \<and>
   lm_z (normalizeLandmark l) = lm_z l \<and>
   (\<forall>v. visibility l = Some v \<and> v \<noteq> NaN \<longrightarrow>
       visibility (normalizeLandmark l) = Some (saturate01 v) \<and>
       in_unit_interval (visibility (normalizeLandmark l))) \<and>
   (visibility l = None \<longrightarrow> visibility (normalizeLandmark l) = None) \<and>
   (lm_x l = Some NaN \<longrightarrow> lm_x (normalizeLandmark l) = Some NaN) \<and>
   (lm_y l = Some NaN \<longrightarrow> lm_y (normalizeLandmark l) = Some NaN) \<and>
   (visibility l = Some NaN \<longrightarrow> visibility (normalizeLandmark l) = Some NaN) \<and>
   normalizePoseData ls = map normalizeLandmark ls"
  by (simp add: normalizePoseData_map) (simp add: normalizeLandmark_def clamp_saturates saturate01_in_unit)

theorem normalizeLandmark_clamps_witness:
  "normalizeLandmark offscreen_landmark =
     \<lparr>lm_x = Some (Fin 0), lm_y = Some (Fin 1), lm_z = Some (Fin (-2)), visibility = Some (Fin 1)\<rparr> \<and>
   visibility (normalizeLandmark NaN_landmark) = None \<and>
   normalizePoseData [offscreen_landmark] = [normalizeLandmark offscreen_landmark]"
proof -
  note t = normalizeLandmark_clamps[of offscreen_landmark "[offscreen_landmark]"]
  have x: "lm_x offscreen_landmark = Some (Fin (-1/4)) \<and> Fin (-1/4) \<noteq> NaN"
    and y: "lm_y offscreen_landmark = Some (Fin (3/2)) \<and> Fin (3/2) \<noteq> NaN"
    and v: "visibility offscreen_landmark = Some (Fin 7) \<and> Fin 7 \<noteq> NaN"
    by (simp_all add: offscreen_landmark_def)
  from t x have 1: "lm_x (normalizeLandmark offscreen_landmark) = Some (saturate01 (Fin (-1/4)))" by blast
  from t y have 2: "lm_y (normalizeLandmark offscreen_landmark) = Some (saturate01 (Fin (3/2)))" by blast
  from t v have 3: "visibility (normalizeLandmark offscreen_landmark) = Some (saturate01 (Fin 7))" by blast
  from t have 4: "lm_z (normalizeLandmark offscreen_landmark) = lm_z offscreen_landmark" by blast
  from t have 5: "normalizePoseData [offscreen_landmark] = map normalizeLandmark [offscreen_landmark]" by blast
  have n: "visibility NaN_landmark = None" by (simp add: NaN_landmark_def)
  with normalizeLandmark_clamps[of NaN_landmark "[]"]
  have 6: "visibility (normalizeLandmark NaN_landmark) = None" by blast
  have "normalizeLandmark offscreen_landmark =
     \<lparr>lm_x = Some (Fin 0), lm_y = Some (Fin 1), lm_z = Some (Fin (-2)), visibility = Some (Fin 1)\<rparr>"
    using 1 2 3 4 by (cases "normalizeLandmark offscreen_landmark") (simp add: offscreen_landmark_def)
  with 5 6 show ?thesis by simp
qed

text \<open>
  C9 as worded covers every landmark. \<open>Math.min(1, NaN)\<close> is \<open>NaN\<close>, so the
  \<open>x\<close> of a landmark with \<open>x = NaN\<close> is \<open>NaN\<close> after normalization, not a value of
  \<open>[0, 1]\<close>.
\<close>

theorem normalizeLandmark_counterexample:
  "\<not> (\<forall>landmark. in_unit_interval (lm_x (normalizeLandmark landmark)))"
proof
  assume "\<forall>landmark. in_unit_interval (lm_x (normalizeLandmark landmark))"
  then have "in_unit_interval (lm_x (normalizeLandmark NaN_landmark))" by blast
  then show False by (simp add: normalizeLandmark_def NaN_landmark_def Math_max_def Math_min_def)
qed

section \<open>The quality check on key landmarks\<close>

lemma low_visibility_key_iff:
  "low_visibility_key lms i \<longleftrightarrow> i < length lms \<and> low_visibility (lms ! i)"
  by (simp add: low_visibility_key_def low_visibility_def)

lemma low_visibility_issue_iff:
  assumes "validatePoseQuality lms = Inr q"
  shows "''Too many key landmarks have low visibility'' \<in> set (issues q) \<longleftrightarrow>
           2 < length (filter (low_visibility_key lms) [0, 11, 12, 23, 24])"
proof (cases "length lms = 0")
  case True
  with assms have "issues q = [''No landmarks detected'']"
    by (auto simp: validatePoseQuality_def)
  moreover from True have "\<not> low_visibility_key lms i" for i
    by (simp add: low_visibility_key_def)
  ultimately show ?thesis by simp
next
  case False
  define n where "n = length (filter (low_visibility_key lms) [0, 11, 12, 23, 24])"
  from assms False obtain invalidCoords where "filter_invalid_coords lms = Inr invalidCoords"
    by (cases "filter_invalid_coords lms") (auto simp: validatePoseQuality_def Let_def)
  with assms False have "issues q =
      (if length lms \<noteq> 33 then [''Expected 33 landmarks, got '' @ string_of_nat (length lms)] else []) @
      (if n > 2 then [''Too many key landmarks have low visibility''] else []) @
      (if length invalidCoords > 0 then [''Some landmarks have invalid coordinates''] else [])"
    unfolding n_def by (auto simp: validatePoseQuality_def Let_def simp del: filter.simps)
  then show ?thesis unfolding n_def[symmetric] by simp
qed

lemma short_list_few_keys:
  assumes "length lms \<le> 12"
  shows "length (filter (low_visibility_key lms) [0, 11, 12, 23, 24]) \<le> 2"
proof -
  from assms have "\<not> low_visibility_key lms 12" "\<not> low_visibility_key lms 23"
    "\<not> low_visibility_key lms 24"
    by (simp_all add: low_visibility_key_def)
  then show ?thesis by simp
qed

text \<open>
  C10. When \<open>validatePoseQuality\<close> returns, the issue
  \<open>Too many key landmarks have low visibility\<close> is raised exactly when more than two of
  the key indices 0, 11, 12, 23, 24 lie inside the list and hold a landmark of low
  visibility: an index past the end of the list is not counted. A list of at most twelve
  landmarks holds at most two key landmarks, so the issue is not raised for it.
\<close>

theorem low_visibility_counts_existing:
  assumes "validatePoseQuality lms = Inr q"
  shows "(''Too many key landmarks have low visibility'' \<in> set (issues q) \<longleftrightarrow>
            2 < length (filter (\<lambda>i. i < length lms \<and> low_visibility (lms ! i)) [0, 11, 12, 23, 24])) \<and>
         (length lms \<le> 12 \<longrightarrow> ''Too many key landmarks have low visibility'' \<notin> set (issues q))"
proof -
  have eq: "filter (\<lambda>i. i < length lms \<and> low_visibility (lms ! i)) [0, 11, 12, 23, 24] =
        filter (low_visibility_key lms) [0, 11, 12, 23, 24]"
    by (simp only: low_visibility_key_iff[symmetric])
  have short: "length lms \<le> 12 \<longrightarrow>
      \<not> 2 < length (filter (low_visibility_key lms) [0, 11, 12, 23, 24])"
    using short_list_few_keys[of lms] by (simp only: not_less) blast
  show ?thesis
    unfolding eq low_visibility_issue_iff[OF assms]
    using short by blast
qed

lemma single_landmark_quality:
  "validatePoseQuality [Some sample_landmark] =
     Inr \<lparr>isValid = False, issues = [''Expected 33 landmarks, got 1'']\<rparr>"
  by (simp add: validatePoseQuality_def low_visibility_key_def sample_landmark_def
        out_of_range_coords_def jgt_def string_of_nat.simps)

theorem low_visibility_counts_existing_witness:
  "validatePoseQuality [Some sample_landmark] =
     Inr \<lparr>isValid = False, issues = [''Expected 33 landmarks, got 1'']\<rparr> \<and>
   length [Some sample_landmark] \<le> 12 \<and>
   ''Too many key landmarks have low visibility''
      \<notin> set (issues \<lparr>isValid = False, issues = [''Expected 33 landmarks, got 1'']\<rparr>)"
proof -
  have l: "length [Some sample_landmark] \<le> 12" by simp
  from low_visibility_counts_existing[OF single_landmark_quality] l
  have "''Too many key landmarks have low visibility''
      \<notin> set (issues \<lparr>isValid = False, issues = [''Expected 33 landmarks, got 1'']\<rparr>)"
    by blast
  with single_landmark_quality l show ?thesis by blast
qed

end
